theory Spec2Isabelle
  imports Complex_Main "HOL-Library.Word"
begin

section \<open>Incremental indexer: file diff (src/indexer/diff.ts)\<close>

text \<open>
  A scanned file carries its path, its absolute path and its modification time (the
  scanner stores \<open>Math.floor(stats.mtimeMs)\<close>, an integer); an indexed row carries the
  modification time recorded at the last parse. The types are declared in
  indexer/types.js, which is not among the sources; of \<open>RepoFileRow\<close> the code reads the
  \<open>mtime\<close> field only.
\<close>

record ScannedFile =
  path :: string
  absolutePath :: string
  mtime :: int

record RepoFileRow =
  row_mtime :: int

record FileDiff =
  added :: "ScannedFile list"
  modified :: "ScannedFile list"
  deleted :: "string list"

text \<open>
  \<open>indexedFiles\<close> is a JavaScript \<open>Map<string, RepoFileRow>\<close>: an association list in
  insertion order, read with \<open>map_of\<close> (\<open>Map.get\<close>) and iterated through its keys.
\<close>

type_synonym indexed_files = "(string \<times> RepoFileRow) list"

text \<open>
  The first loop of \<open>computeDiff\<close>: one step for each scanned file, carrying the three
  mutable locals \<open>added\<close>, \<open>modified\<close> and \<open>seenPaths\<close>.
\<close>

fun scan_loop ::
  "indexed_files \<Rightarrow> ScannedFile list \<Rightarrow> ScannedFile list \<times> ScannedFile list \<times> string set
     \<Rightarrow> ScannedFile list \<times> ScannedFile list \<times> string set" where
  "scan_loop indexedFiles [] acc = acc"
| "scan_loop indexedFiles (file # rest) (add, modi, seenPaths) =
     (case map_of indexedFiles (path file) of
        None \<Rightarrow> scan_loop indexedFiles rest (add @ [file], modi, insert (path file) seenPaths)
      | Some indexed \<Rightarrow>
          if mtime file > row_mtime indexed
          then scan_loop indexedFiles rest (add, modi @ [file], insert (path file) seenPaths)
          else scan_loop indexedFiles rest (add, modi, insert (path file) seenPaths))"

text \<open>The second loop: every indexed path that the scan did not see is deleted.\<close>

fun deleted_loop :: "string set \<Rightarrow> string list \<Rightarrow> string list \<Rightarrow> string list" where
  "deleted_loop seenPaths [] del = del"
| "deleted_loop seenPaths (p # rest) del =
     (if p \<notin> seenPaths then deleted_loop seenPaths rest (del @ [p])
      else deleted_loop seenPaths rest del)"

definition computeDiff :: "ScannedFile list \<Rightarrow> indexed_files \<Rightarrow> FileDiff" where
  "computeDiff scannedFiles indexedFiles =
     (case scan_loop indexedFiles scannedFiles ([], [], {}) of
        (add, modi, seenPaths) \<Rightarrow>
          \<lparr>added = add, modified = modi,
           deleted = deleted_loop seenPaths (map fst indexedFiles) []\<rparr>)"

section \<open>The solutions table\<close>

text \<open>
  Failures are values. \<open>NotFound\<close> is the error that \<open>matrixStore\<close> raises as
  \<open>Error('Cannot supersede non-existent solution: <id>')\<close>; \<open>ConstraintViolation\<close> is
  the database rejecting a row; \<open>ModelUnavailable\<close> and \<open>OtherFailure\<close> stand for
  whatever the collaborators outside these sources raise.
\<close>

datatype error =
    NotFound string
  | ConstraintViolation
  | ModelUnavailable
  | DimensionMismatch
  | SyntaxError
  | OtherFailure string

datatype scope_t = Global | Stack | Repo

datatype SolutionCategory = Bugfix | Feature | Refactor | Config | Pattern | Optimization

text \<open>
  \<open>CodeBlock\<close> is declared in types/db.js, which is not among the sources; the code below
  only counts code blocks and stores them.
\<close>

record CodeBlock =
  cb_language :: string
  cb_code :: string
  cb_description :: string

text \<open>
  A \<open>Uint8Array\<close> blob is a list of bytes, a \<open>Float32Array\<close> a list of numbers. A
  JavaScript number is modelled by a real (counters and complexities by integers).
\<close>

type_synonym blob = "8 word list"
type_synonym embedding = "real list"

text \<open>
  The text of the \<open>tags\<close> column: NULL or the empty string (both falsy in JavaScript),
  the JSON text of an array of strings, or a text that \<open>JSON.parse\<close> rejects.
\<close>

datatype tags_text = NoTags | TagsArray "string list" | BadJson

text \<open>
  A row of \<open>solutions\<close>, with the columns that \<open>matrixStore\<close> writes and that
  \<open>merge\<close> reads. The timestamps \<open>created_at\<close> and \<open>updated_at\<close> are left out: no
  clock is modelled.
\<close>

record solution_row =
  col_id :: string
  col_repo_id :: string
  col_problem :: string
  col_problem_embedding :: blob
  col_solution :: string
  col_scope :: scope_t
  col_context :: "string list"
  col_tags :: tags_text
  col_score :: real
  col_category :: "SolutionCategory option"
  col_complexity :: int
  col_prerequisites :: "string list"
  col_anti_patterns :: "string list"
  col_code_blocks :: "CodeBlock list"
  col_related_solutions :: "string list"
  col_supersedes :: "string option"
  col_uses :: nat
  col_successes :: nat
  col_partial_successes :: nat
  col_failures :: nat

text \<open>
  An entry of \<open>usage_log\<close>. The note of a merge is the text
  \<open>Merged from <id>: +<uses> uses\<close>; the model keeps its two variable parts.
\<close>

record usage_entry =
  log_solution_id :: string
  log_outcome :: string
  log_merged_from :: string
  log_merged_uses :: nat

record db =
  solutions :: "solution_row list"
  usage_log :: "usage_entry list"

text \<open>\<open>SELECT ... FROM solutions WHERE id = ?\<close> followed by \<open>.get\<close>: the row or null.\<close>

definition select_by_id :: "string \<Rightarrow> db \<Rightarrow> solution_row option" where
  "select_by_id i d = find (\<lambda>r. col_id r = i) (solutions d)"

text \<open>
  Modelled from the spec: the schema of \<open>solutions\<close> is not among the sources. Section 6
  declares \<open>id\<close> the primary key and \<open>complexity CHECK 1..10\<close> (the test suite expects an
  insert with complexity 11 to throw); an insert that breaks either is rejected and
  writes nothing. The checks on scope and category hold by the types of the model.
\<close>

definition insert_solution :: "solution_row \<Rightarrow> db \<Rightarrow> error + db" where
  "insert_solution r d =
     (if col_id r \<in> col_id ` set (solutions d) then Inl ConstraintViolation
      else if col_complexity r < 1 \<or> 10 < col_complexity r then Inl ConstraintViolation
      else Inr (d\<lparr>solutions := solutions d @ [r]\<rparr>))"

section \<open>Collaborators outside the sources\<close>

text \<open>
  \<open>getEmbedding\<close> (embeddings/local.js), \<open>embeddingToBuffer\<close>, \<open>bufferToEmbedding\<close> and
  \<open>cosineSimilarity\<close> (db/client.js, db/index.js) are not among the sources. They are
  parameters of the model: every theorem below holds for all of them. A call that
  raises returns \<open>Inl\<close>.
\<close>

record externals =
  getEmbedding :: "string \<Rightarrow> error + embedding"
  embeddingToBuffer :: "embedding \<Rightarrow> blob"
  bufferToEmbedding :: "blob \<Rightarrow> error + embedding"
  cosineSimilarity :: "embedding \<Rightarrow> embedding \<Rightarrow> error + real"

text \<open>Modelled from the spec: \<open>EMBEDDING_DIM\<close> (embeddings/local.js) is D = 384.\<close>

definition EMBEDDING_DIM :: nat where
  "EMBEDDING_DIM = 384"

text \<open>
  The similarity of a query to a stored row, when the blob decodes and the comparison
  returns a number.
\<close>

definition row_similarity :: "externals \<Rightarrow> embedding \<Rightarrow> solution_row \<Rightarrow> real option" where
  "row_similarity ext q r =
     (case bufferToEmbedding ext (col_problem_embedding r) of
        Inl e \<Rightarrow> None
      | Inr v \<Rightarrow> (case cosineSimilarity ext q v of Inl e \<Rightarrow> None | Inr s \<Rightarrow> Some s))"

text \<open>
  Modelled from the spec: \<open>searchSimilarSolutions\<close> is defined in db/client.js, which is
  not among the sources. After sections 4.2, 4.3 and 7: the query is compared with every
  stored embedding, a row whose embedding is corrupt or whose comparison fails is
  skipped, the rows with similarity at least \<open>minScore\<close> are ranked in descending order of
  similarity (ties in a fixed order, here the order of the table), and at most \<open>limit\<close>
  of them are returned, each as the row's id with its similarity.
\<close>

definition similar_rows :: "externals \<Rightarrow> embedding \<Rightarrow> real \<Rightarrow> db \<Rightarrow> (string \<times> real) list" where
  "similar_rows ext q minScore d =
     concat (map (\<lambda>r. case row_similarity ext q r of
                         None \<Rightarrow> []
                       | Some s \<Rightarrow> if s \<ge> minScore then [(col_id r, s)] else [])
                 (solutions d))"

definition searchSimilarSolutions ::
  "externals \<Rightarrow> embedding \<Rightarrow> nat \<Rightarrow> real \<Rightarrow> db \<Rightarrow> (string \<times> real) list" where
  "searchSimilarSolutions ext q limit minScore d =
     take limit (sort_key (\<lambda>m. - snd m) (similar_rows ext q minScore d))"

section \<open>Storing a solution (matrixStore)\<close>

record StoreInput =
  problem :: string
  solution :: string
  scope :: scope_t
  tags :: "string list option"
  filesAffected :: "string list option"
  category :: "SolutionCategory option"
  complexity :: "int option"
  prerequisites :: "string list option"
  antiPatterns :: "string list option"
  codeBlocks :: "CodeBlock list option"
  relatedSolutions :: "string list option"
  supersedes :: "string option"

datatype status_t = Stored | Duplicate | Superseded

record StoreResult =
  r_id :: string
  r_status :: status_t
  r_problem :: string
  r_scope :: scope_t
  r_tags :: "string list"
  r_similarity :: "real option"
  r_category :: "SolutionCategory option"
  r_complexity :: "int option"
  r_supersededId :: "string option"

text \<open>\<open>xs || []\<close> for an optional array: an array is truthy even when empty.\<close>

definition or_empty :: "'a list option \<Rightarrow> 'a list" where
  "or_empty xs = (case xs of None \<Rightarrow> [] | Some ys \<Rightarrow> ys)"

text \<open>\<open>xs?.length\<close> used as a condition: the array is given and not empty.\<close>

definition has_length :: "'a list option \<Rightarrow> bool" where
  "has_length xs = (case xs of None \<Rightarrow> False | Some ys \<Rightarrow> length ys \<noteq> 0)"

definition calculateComplexity :: "StoreInput \<Rightarrow> int" where
  "calculateComplexity input =
     (let score = 1;
          score = score + min 4 (int (length (solution input)) div 500);
          score = (if has_length (codeBlocks input)
                   then score + min 2 (int (length (or_empty (codeBlocks input)))) else score);
          score = (if has_length (prerequisites input)
                   then score + min 2 (int (length (or_empty (prerequisites input)))) else score);
          score = (if has_length (filesAffected input)
                   then score + min 2 (int (length (or_empty (filesAffected input))) div 2)
                   else score)
      in min 10 (max 1 score))"

text \<open>\<open>s.slice(0, 100) + (s.length > 100 ? '...' : '')\<close>\<close>

definition preview :: "string \<Rightarrow> string" where
  "preview s = take 100 s @ (if length s > 100 then ''...'' else [])"

text \<open>
  JavaScript numbers are IEEE doubles: the result of a multiplication or a division is
  the exact result rounded to 53 significant bits, ties to the even significand. The
  exponent range (overflow, subnormal numbers) is outside the model; the values rounded
  here lie between 1/2 and 1024.
\<close>

definition round_half_even :: "real \<Rightarrow> int" where
  "round_half_even y =
     (let f = \<lfloor>y\<rfloor>; r = y - of_int f
      in if r < 1 / 2 then f else if r > 1 / 2 then f + 1 else if even f then f else f + 1)"

definition to_double :: "real \<Rightarrow> real" where
  "to_double x =
     (if x = 0 then 0
      else let e = \<lfloor>log 2 \<bar>x\<bar>\<rfloor>; u = 2 powr (of_int e - 52)
           in of_int (round_half_even (x / u)) * u)"

text \<open>
  \<open>Math.round(x * 1000) / 1000\<close>: the product is rounded to a double, \<open>Math.round\<close> takes
  the nearest integer of that double (a half goes upwards), and the quotient is rounded
  to a double again.
\<close>

definition round3 :: "real \<Rightarrow> real" where
  "round3 x = to_double (of_int \<lfloor>to_double (x * 1000) + 1 / 2\<rfloor> / 1000)"

text \<open>\<open>input.supersedes\<close> used as a condition: given and not the empty string.\<close>

definition truthy :: "string option \<Rightarrow> bool" where
  "truthy s = (case s of None \<Rightarrow> False | Some t \<Rightarrow> t \<noteq> [])"

text \<open>\<open>input.supersedes || null\<close>\<close>

definition or_null :: "string option \<Rightarrow> string option" where
  "or_null s = (if truthy s then s else None)"

text \<open>
  The supersedes check: the id that \<open>input.supersedes\<close> names when it is given, not
  empty, and no row has it.
\<close>

definition missing_target :: "string option \<Rightarrow> db \<Rightarrow> string option" where
  "missing_target s d =
     (case s of
        None \<Rightarrow> None
      | Some t \<Rightarrow> if t \<noteq> [] \<and> select_by_id t d = None then Some t else None)"

text \<open>
  The second half of \<open>matrixStore\<close>, reached when no duplicate is returned: derive the
  complexity, check the supersedes target, insert the row.
\<close>

definition store_new ::
  "externals \<Rightarrow> string \<Rightarrow> string \<Rightarrow> embedding \<Rightarrow> StoreInput \<Rightarrow> db
     \<Rightarrow> (error + StoreResult) \<times> db" where
  "store_new ext new_id repoId emb input d =
     (let cplx = (case complexity input of Some c \<Rightarrow> c | None \<Rightarrow> calculateComplexity input) in
      case missing_target (supersedes input) d of
        Some t \<Rightarrow> (Inl (NotFound t), d)
      | None \<Rightarrow>
          (case insert_solution
                  \<lparr>col_id = new_id, col_repo_id = repoId, col_problem = problem input,
                   col_problem_embedding = embeddingToBuffer ext emb,
                   col_solution = solution input, col_scope = scope input,
                   col_context = or_empty (filesAffected input),
                   col_tags = TagsArray (or_empty (tags input)),
                   col_score = 1 / 2,
                   col_category = category input, col_complexity = cplx,
                   col_prerequisites = or_empty (prerequisites input),
                   col_anti_patterns = or_empty (antiPatterns input),
                   col_code_blocks = or_empty (codeBlocks input),
                   col_related_solutions = or_empty (relatedSolutions input),
                   col_supersedes = or_null (supersedes input),
                   col_uses = 0, col_successes = 0, col_partial_successes = 0,
                   col_failures = 0\<rparr> d of
             Inl e \<Rightarrow> (Inl e, d)
           | Inr d' \<Rightarrow>
               (Inr \<lparr>r_id = new_id,
                     r_status = (if truthy (supersedes input) then Superseded else Stored),
                     r_problem = preview (problem input),
                     r_scope = scope input, r_tags = or_empty (tags input),
                     r_similarity = None,
                     r_category = category input, r_complexity = Some cplx,
                     r_supersededId = supersedes input\<rparr>, d')))"

text \<open>
  \<open>matrixStore\<close>. The random UUID and the outcome of \<open>fingerprintRepo\<close> and
  \<open>getOrCreateRepo\<close> (which do not touch \<open>solutions\<close>) are inputs of the model. The
  function returns its result or the error it raises, together with the database it
  leaves behind.
\<close>

definition matrixStore ::
  "externals \<Rightarrow> string \<Rightarrow> error + string \<Rightarrow> StoreInput \<Rightarrow> db \<Rightarrow> (error + StoreResult) \<times> db" where
  "matrixStore ext uuid repo input d =
     (let new_id = ''sol_'' @ take 8 uuid in
      case repo of
        Inl e \<Rightarrow> (Inl e, d)
      | Inr repoId \<Rightarrow>
          (case getEmbedding ext (problem input) of
             Inl e \<Rightarrow> (Inl e, d)
           | Inr emb \<Rightarrow>
               (case searchSimilarSolutions ext emb 1 (9 / 10) d of
                  [] \<Rightarrow> store_new ext new_id repoId emb input d
                | dup # _ \<Rightarrow>
                    (case select_by_id (fst dup) d of
                       None \<Rightarrow> store_new ext new_id repoId emb input d
                     | Some existing \<Rightarrow>
                         (Inr \<lparr>r_id = col_id existing, r_status = Duplicate,
                               r_problem = preview (col_problem existing),
                               r_scope = scope input, r_tags = or_empty (tags input),
                               r_similarity = Some (round3 (snd dup)),
                               r_category = col_category existing, r_complexity = None,
                               r_supersededId = None\<rparr>, d)))))"

section \<open>Merging solutions (src/cli/merge.ts)\<close>









text \<open>
  The candidate scan of \<open>merge\<close> (the loops over \<open>i < j\<close>, then the sort). The body of the
  \<open>try\<close> block gives the similarity of a pair; a decoding or a comparison that raises, and
  an embedding of the wrong dimension, give none (\<open>continue\<close>).
\<close>

record MergeCandidate =
  cand_a :: solution_row
  cand_b :: solution_row
  cand_similarity :: real

definition pair_similarity :: "externals \<Rightarrow> solution_row \<Rightarrow> solution_row \<Rightarrow> real option" where
  "pair_similarity ext x y =
     (case bufferToEmbedding ext (col_problem_embedding x) of
        Inl e \<Rightarrow> None
      | Inr embA \<Rightarrow>
          (case bufferToEmbedding ext (col_problem_embedding y) of
             Inl e \<Rightarrow> None
           | Inr embB \<Rightarrow>
               if length embA \<noteq> EMBEDDING_DIM \<or> length embB \<noteq> EMBEDDING_DIM then None
               else (case cosineSimilarity ext embA embB of
                       Inl e \<Rightarrow> None
                     | Inr s \<Rightarrow> Some s)))"

fun inner_loop ::
  "externals \<Rightarrow> real \<Rightarrow> solution_row \<Rightarrow> solution_row list \<Rightarrow> MergeCandidate list
     \<Rightarrow> MergeCandidate list" where
  "inner_loop ext threshold x [] candidates = candidates"
| "inner_loop ext threshold x (y # rest) candidates =
     (case pair_similarity ext x y of
        None \<Rightarrow> inner_loop ext threshold x rest candidates
      | Some s \<Rightarrow>
          if s \<ge> threshold
          then inner_loop ext threshold x rest
                 (candidates @ [\<lparr>cand_a = x, cand_b = y, cand_similarity = s\<rparr>])
          else inner_loop ext threshold x rest candidates)"

fun outer_loop ::
  "externals \<Rightarrow> real \<Rightarrow> solution_row list \<Rightarrow> MergeCandidate list \<Rightarrow> MergeCandidate list" where
  "outer_loop ext threshold [] candidates = candidates"
| "outer_loop ext threshold (x # rest) candidates =
     outer_loop ext threshold rest (inner_loop ext threshold x rest candidates)"

text \<open>
  \<open>candidates.sort((a, b) => b.similarity - a.similarity)\<close>: a stable sort, descending in
  similarity. With fewer than two solutions \<open>merge\<close> returns before the scan.
\<close>

definition merge_candidates :: "externals \<Rightarrow> real \<Rightarrow> solution_row list \<Rightarrow> MergeCandidate list" where
  "merge_candidates ext threshold sols =
     (if length sols < 2 then []
      else sort_key (\<lambda>c. - cand_similarity c) (outer_loop ext threshold sols []))"

section \<open>The TypeScript parser (src/unnamed/part_001)\<close>

text \<open>
  The parser walks the syntax tree that the TypeScript compiler builds. The compiler is
  outside the sources: a call of one of its methods (\<open>createSourceFile\<close>, \<open>getStart\<close>,
  \<open>getEnd\<close>, \<open>getLineAndCharacterOfPosition\<close>, \<open>getText\<close>) returns a value or raises, and
  the tree below records, for every call the parser makes, which of the two happens.
  Reading a field of a node does not raise.
\<close>

type_synonym 'a api = "error + 'a"

datatype SymbolKind =
  KFunction | KClass | KInterface | KType | KEnum | KConst | KVariable | KMethod | KProperty

record ExtractedSymbol =
  sym_name :: string
  sym_kind :: SymbolKind
  sym_line :: nat
  sym_column :: nat
  sym_endLine :: "nat option"
  sym_exported :: bool
  sym_isDefault :: bool
  sym_scope :: "string option"
  sym_signature :: "string option"

record ExtractedImport =
  imp_importedName :: string
  imp_localName :: "string option"
  imp_sourcePath :: string
  imp_isDefault :: bool
  imp_isNamespace :: bool
  imp_isType :: bool
  imp_line :: nat

record ParseResult =
  pr_symbols :: "ExtractedSymbol list"
  pr_imports :: "ExtractedImport list"
  pr_errors :: "string list option"

datatype ScriptKind = TS | TSX | JS | JSX

datatype modifier = ExportKeyword | DefaultKeyword | OtherModifier

text \<open>A property name or a binding name: an identifier with its text, or something else.\<close>

datatype name_node = Identifier string | OtherName

text \<open>
  A parameter: the outcome of \<open>p.name.getText()\<close>, of \<open>p.type.getText()\<close> when there is a
  type, and whether there is a question token. A function-like node: its parameters and
  the outcome of \<open>node.type.getText()\<close> when there is a return type.
\<close>

record parameter =
  p_name_text :: "string api"
  p_type_text :: "string api option"
  p_questionToken :: bool

record function_like =
  fl_parameters :: "parameter list"
  fl_type_text :: "string api option"

datatype initializer = NoInitializer | FunctionInitializer function_like | OtherInitializer

text \<open>
  A position is given by the outcome of \<open>getLineAndCharacterOfPosition\<close> on it: the
  zero-based line and the character, or the error that this call or \<open>getStart\<close>/\<open>getEnd\<close>
  raises.
\<close>

type_synonym position = "(nat \<times> nat) api"

record variable_declaration =
  vd_name :: name_node
  vd_start :: position
  vd_end :: position
  vd_initializer :: initializer

record import_specifier =
  is_propertyName :: "string option"
  is_name :: string
  is_isTypeOnly :: bool

datatype named_bindings = NamespaceImport string | NamedImports "import_specifier list"

record import_clause =
  ic_isTypeOnly :: bool
  ic_name :: "string option"
  ic_namedBindings :: "named_bindings option"

text \<open>
  The kinds of node that \<open>visit\<close> tells apart, each with the fields its handler reads.
  The module specifier of an import is given by its text when it is a string literal.
\<close>

datatype node_kind =
    FunctionDeclaration "string option" function_like
  | ClassDeclaration "string option"
  | InterfaceDeclaration string
  | TypeAliasDeclaration string "string api"
  | EnumDeclaration string
  | VariableStatement bool "variable_declaration list"
  | MethodDeclaration name_node function_like
  | PropertyDeclaration name_node "string api option"
  | ImportDeclaration "string option" "import_clause option"
  | ExportDeclaration
  | ExportAssignment
  | OtherSyntax

text \<open>
  A node: its kind, its modifiers (none when it cannot have any), the positions of its
  start and end, and its children in the order of \<open>forEachChild\<close>.
\<close>

datatype node = Node node_kind "modifier list" position position "node list"

text \<open>
  A block of statements that works on mutable arrays either returns or raises, and in both
  cases leaves the arrays in some state.
\<close>

datatype 's outcome = Returned 's | Raised error 's

text \<open>A call into the compiler inside such a block: it raises, or the block goes on.\<close>

definition call :: "'a api \<Rightarrow> 's \<Rightarrow> ('a \<Rightarrow> 's outcome) \<Rightarrow> 's outcome" where
  "call r s k = (case r of Inl e \<Rightarrow> Raised e s | Inr v \<Rightarrow> k v)"

text \<open>\<open>try { body } catch (err) { handler }\<close>\<close>

definition try_catch :: "'s outcome \<Rightarrow> (error \<Rightarrow> 's \<Rightarrow> 's outcome) \<Rightarrow> 's outcome" where
  "try_catch body handler = (case body of Returned s \<Rightarrow> Returned s | Raised e s \<Rightarrow> handler e s)"

text \<open>\<open>filePath.split('.').pop()\<close>: the text after the last dot, or the whole path.\<close>

definition last_segment :: "string \<Rightarrow> string" where
  "last_segment p = rev (takeWhile (\<lambda>c. c \<noteq> CHR ''.'') (rev p))"

text \<open>\<open>toLowerCase\<close>, on the letters that the extensions below are written with.\<close>

definition toLowerCase :: "string \<Rightarrow> string" where
  "toLowerCase s =
     map (\<lambda>c. let n = (of_char c :: nat) in if 65 \<le> n \<and> n \<le> 90 then char_of (n + 32) else c) s"

definition getScriptKind :: "string \<Rightarrow> ScriptKind" where
  "getScriptKind filePath =
     (let ext = toLowerCase (last_segment filePath) in
      if ext = ''ts'' then TS
      else if ext = ''tsx'' then TSX
      else if ext = ''js'' \<or> ext = ''mjs'' \<or> ext = ''cjs'' then JS
      else if ext = ''jsx'' then JSX
      else TS)"

definition hasExportModifier :: "modifier list \<Rightarrow> bool" where
  "hasExportModifier modifiers = (ExportKeyword \<in> set modifiers)"

definition hasDefaultModifier :: "modifier list \<Rightarrow> bool" where
  "hasDefaultModifier modifiers = (DefaultKeyword \<in> set modifiers)"

text \<open>\<open>getLocation\<close>: the line becomes 1-indexed.\<close>

definition getLocation :: "position \<Rightarrow> (nat \<times> nat) api" where
  "getLocation pos = (case pos of Inl e \<Rightarrow> Inl e | Inr (line, character) \<Rightarrow> Inr (line + 1, character))"

text \<open>\<open>xs.join(', ')\<close>\<close>

fun join_comma :: "string list \<Rightarrow> string" where
  "join_comma [] = []"
| "join_comma [x] = x"
| "join_comma (x # y # ys) = x @ '', '' @ join_comma (y # ys)"

text \<open>The text of one parameter, and of all of them (\<open>node.parameters.map\<close>).\<close>

definition parameter_text :: "parameter \<Rightarrow> string api" where
  "parameter_text p =
     (case p_name_text p of
        Inl e \<Rightarrow> Inl e
      | Inr name \<Rightarrow>
          (case p_type_text p of
             None \<Rightarrow> Inr (name @ (if p_questionToken p then ''?'' else []))
           | Some (Inl e) \<Rightarrow> Inl e
           | Some (Inr t) \<Rightarrow> Inr (name @ (if p_questionToken p then ''?'' else []) @ '': '' @ t)))"

fun parameter_texts :: "parameter list \<Rightarrow> string list api" where
  "parameter_texts [] = Inr []"
| "parameter_texts (p # ps) =
     (case parameter_text p of
        Inl e \<Rightarrow> Inl e
      | Inr t \<Rightarrow> (case parameter_texts ps of Inl e \<Rightarrow> Inl e | Inr ts \<Rightarrow> Inr (t # ts)))"

definition getFunctionSignature :: "function_like \<Rightarrow> string api" where
  "getFunctionSignature fl =
     (case parameter_texts (fl_parameters fl) of
        Inl e \<Rightarrow> Inl e
      | Inr ps \<Rightarrow>
          (case fl_type_text fl of
             None \<Rightarrow> Inr (''('' @ join_comma ps @ '')'')
           | Some (Inl e) \<Rightarrow> Inl e
           | Some (Inr t) \<Rightarrow> Inr (''('' @ join_comma ps @ '')'' @ '': '' @ t)))"

text \<open>
  The handlers. Each takes the fields of its node, the enclosing scope and the \<open>symbols\<close>
  (or \<open>imports\<close>) array, and returns or raises with the array as it has become.
\<close>

definition handleFunctionDeclaration ::
  "string option \<Rightarrow> function_like \<Rightarrow> modifier list \<Rightarrow> position \<Rightarrow> position \<Rightarrow> string option
     \<Rightarrow> ExtractedSymbol list \<Rightarrow> ExtractedSymbol list outcome" where
  "handleFunctionDeclaration name fl modifiers start en scope_name symbols =
     (case name of
        None \<Rightarrow> Returned symbols
      | Some text \<Rightarrow>
          call (getLocation start) symbols (\<lambda>loc.
          call (getLocation en) symbols (\<lambda>endLoc.
          call (getFunctionSignature fl) symbols (\<lambda>sig.
            Returned (symbols @
              [\<lparr>sym_name = text, sym_kind = KFunction, sym_line = fst loc, sym_column = snd loc,
                sym_endLine = Some (fst endLoc), sym_exported = hasExportModifier modifiers,
                sym_isDefault = hasDefaultModifier modifiers, sym_scope = scope_name,
                sym_signature = Some sig\<rparr>])))))"

definition handleClassDeclaration ::
  "string option \<Rightarrow> modifier list \<Rightarrow> position \<Rightarrow> position \<Rightarrow> string option
     \<Rightarrow> ExtractedSymbol list \<Rightarrow> ExtractedSymbol list outcome" where
  "handleClassDeclaration name modifiers start en scope_name symbols =
     (case name of
        None \<Rightarrow> Returned symbols
      | Some text \<Rightarrow>
          call (getLocation start) symbols (\<lambda>loc.
          call (getLocation en) symbols (\<lambda>endLoc.
            Returned (symbols @
              [\<lparr>sym_name = text, sym_kind = KClass, sym_line = fst loc, sym_column = snd loc,
                sym_endLine = Some (fst endLoc), sym_exported = hasExportModifier modifiers,
                sym_isDefault = hasDefaultModifier modifiers, sym_scope = scope_name,
                sym_signature = None\<rparr>]))))"

definition handleInterfaceDeclaration ::
  "string \<Rightarrow> modifier list \<Rightarrow> position \<Rightarrow> position \<Rightarrow> string option
     \<Rightarrow> ExtractedSymbol list \<Rightarrow> ExtractedSymbol list outcome" where
  "handleInterfaceDeclaration text modifiers start en scope_name symbols =
     call (getLocation start) symbols (\<lambda>loc.
     call (getLocation en) symbols (\<lambda>endLoc.
       Returned (symbols @
         [\<lparr>sym_name = text, sym_kind = KInterface, sym_line = fst loc, sym_column = snd loc,
           sym_endLine = Some (fst endLoc), sym_exported = hasExportModifier modifiers,
           sym_isDefault = False, sym_scope = scope_name, sym_signature = None\<rparr>])))"

definition handleTypeAliasDeclaration ::
  "string \<Rightarrow> string api \<Rightarrow> modifier list \<Rightarrow> position \<Rightarrow> position \<Rightarrow> string option
     \<Rightarrow> ExtractedSymbol list \<Rightarrow> ExtractedSymbol list outcome" where
  "handleTypeAliasDeclaration text type_text modifiers start en scope_name symbols =
     call (getLocation start) symbols (\<lambda>loc.
     call (getLocation en) symbols (\<lambda>endLoc.
     call type_text symbols (\<lambda>sig.
       Returned (symbols @
         [\<lparr>sym_name = text, sym_kind = KType, sym_line = fst loc, sym_column = snd loc,
           sym_endLine = Some (fst endLoc), sym_exported = hasExportModifier modifiers,
           sym_isDefault = False, sym_scope = scope_name, sym_signature = Some sig\<rparr>]))))"

definition handleEnumDeclaration ::
  "string \<Rightarrow> modifier list \<Rightarrow> position \<Rightarrow> position \<Rightarrow> string option
     \<Rightarrow> ExtractedSymbol list \<Rightarrow> ExtractedSymbol list outcome" where
  "handleEnumDeclaration text modifiers start en scope_name symbols =
     call (getLocation start) symbols (\<lambda>loc.
     call (getLocation en) symbols (\<lambda>endLoc.
       Returned (symbols @
         [\<lparr>sym_name = text, sym_kind = KEnum, sym_line = fst loc, sym_column = snd loc,
           sym_endLine = Some (fst endLoc), sym_exported = hasExportModifier modifiers,
           sym_isDefault = False, sym_scope = scope_name, sym_signature = None\<rparr>])))"

text \<open>
  The loop of \<open>handleVariableStatement\<close> over the declarations: a declaration whose name
  is not an identifier is passed over; the symbols pushed before a call raises stay.
\<close>

fun declarations_loop ::
  "bool \<Rightarrow> bool \<Rightarrow> string option \<Rightarrow> variable_declaration list
     \<Rightarrow> ExtractedSymbol list \<Rightarrow> ExtractedSymbol list outcome" where
  "declarations_loop isExported isConst scope_name [] symbols = Returned symbols"
| "declarations_loop isExported isConst scope_name (declaration # rest) symbols =
     (case vd_name declaration of
        OtherName \<Rightarrow> declarations_loop isExported isConst scope_name rest symbols
      | Identifier text \<Rightarrow>
          call (getLocation (vd_start declaration)) symbols (\<lambda>loc.
          call (getLocation (vd_end declaration)) symbols (\<lambda>endLoc.
          call (case vd_initializer declaration of
                  FunctionInitializer fl \<Rightarrow>
                    (case getFunctionSignature fl of
                       Inl e \<Rightarrow> Inl e
                     | Inr sig \<Rightarrow> Inr (KFunction, Some sig))
                | _ \<Rightarrow> Inr (if isConst then KConst else KVariable, None))
               symbols (\<lambda>(kind, sig).
            declarations_loop isExported isConst scope_name rest
              (symbols @
                [\<lparr>sym_name = text, sym_kind = kind, sym_line = fst loc, sym_column = snd loc,
                  sym_endLine = Some (fst endLoc), sym_exported = isExported,
                  sym_isDefault = False, sym_scope = scope_name, sym_signature = sig\<rparr>])))))"

definition handleVariableStatement ::
  "bool \<Rightarrow> variable_declaration list \<Rightarrow> modifier list \<Rightarrow> string option
     \<Rightarrow> ExtractedSymbol list \<Rightarrow> ExtractedSymbol list outcome" where
  "handleVariableStatement isConst declarations modifiers scope_name symbols =
     declarations_loop (hasExportModifier modifiers) isConst scope_name declarations symbols"

definition handleMethodDeclaration ::
  "name_node \<Rightarrow> function_like \<Rightarrow> position \<Rightarrow> position \<Rightarrow> string option
     \<Rightarrow> ExtractedSymbol list \<Rightarrow> ExtractedSymbol list outcome" where
  "handleMethodDeclaration name fl start en scope_name symbols =
     (case name of
        OtherName \<Rightarrow> Returned symbols
      | Identifier text \<Rightarrow>
          call (getLocation start) symbols (\<lambda>loc.
          call (getLocation en) symbols (\<lambda>endLoc.
          call (getFunctionSignature fl) symbols (\<lambda>sig.
            Returned (symbols @
              [\<lparr>sym_name = text, sym_kind = KMethod, sym_line = fst loc, sym_column = snd loc,
                sym_endLine = Some (fst endLoc), sym_exported = False,
                sym_isDefault = False, sym_scope = scope_name,
                sym_signature = Some sig\<rparr>])))))"

definition handlePropertyDeclaration ::
  "name_node \<Rightarrow> string api option \<Rightarrow> position \<Rightarrow> string option
     \<Rightarrow> ExtractedSymbol list \<Rightarrow> ExtractedSymbol list outcome" where
  "handlePropertyDeclaration name type_text start scope_name symbols =
     (case name of
        OtherName \<Rightarrow> Returned symbols
      | Identifier text \<Rightarrow>
          call (getLocation start) symbols (\<lambda>loc.
          call (case type_text of
                  None \<Rightarrow> Inr None
                | Some (Inl e) \<Rightarrow> Inl e
                | Some (Inr t) \<Rightarrow> Inr (Some t)) symbols (\<lambda>sig.
            Returned (symbols @
              [\<lparr>sym_name = text, sym_kind = KProperty, sym_line = fst loc, sym_column = snd loc,
                sym_endLine = None, sym_exported = False,
                sym_isDefault = False, sym_scope = scope_name,
                sym_signature = sig\<rparr>]))))"

definition named_import :: "string \<Rightarrow> bool \<Rightarrow> nat \<Rightarrow> import_specifier \<Rightarrow> ExtractedImport" where
  "named_import sourcePath isTypeOnly line element =
     \<lparr>imp_importedName =
        (case is_propertyName element of Some t \<Rightarrow> t | None \<Rightarrow> is_name element),
      imp_localName =
        (case is_propertyName element of Some t \<Rightarrow> Some (is_name element) | None \<Rightarrow> None),
      imp_sourcePath = sourcePath, imp_isDefault = False, imp_isNamespace = False,
      imp_isType = (isTypeOnly \<or> is_isTypeOnly element), imp_line = line\<rparr>"

definition handleImportDeclaration ::
  "string option \<Rightarrow> import_clause option \<Rightarrow> position
     \<Rightarrow> ExtractedImport list \<Rightarrow> ExtractedImport list outcome" where
  "handleImportDeclaration moduleSpecifier importClause start imports_array =
     (case moduleSpecifier of
        None \<Rightarrow> Returned imports_array
      | Some sourcePath \<Rightarrow>
          call (getLocation start) imports_array (\<lambda>loc.
            case importClause of
              None \<Rightarrow>
                Returned (imports_array @
                  [\<lparr>imp_importedName = ''*'', imp_localName = None, imp_sourcePath = sourcePath,
                    imp_isDefault = False, imp_isNamespace = False, imp_isType = False,
                    imp_line = fst loc\<rparr>])
            | Some clause \<Rightarrow>
                (let isTypeOnly = ic_isTypeOnly clause;
                     with_default =
                       (case ic_name clause of
                          None \<Rightarrow> imports_array
                        | Some text \<Rightarrow>
                            imports_array @
                              [\<lparr>imp_importedName = text, imp_localName = None,
                                imp_sourcePath = sourcePath, imp_isDefault = True,
                                imp_isNamespace = False, imp_isType = isTypeOnly,
                                imp_line = fst loc\<rparr>])
                 in case ic_namedBindings clause of
                      None \<Rightarrow> Returned with_default
                    | Some (NamespaceImport text) \<Rightarrow>
                        Returned (with_default @
                          [\<lparr>imp_importedName = text, imp_localName = None,
                            imp_sourcePath = sourcePath, imp_isDefault = False,
                            imp_isNamespace = True, imp_isType = isTypeOnly,
                            imp_line = fst loc\<rparr>])
                    | Some (NamedImports elements) \<Rightarrow>
                        Returned (with_default @
                          map (named_import sourcePath isTypeOnly (fst loc)) elements))))"

text \<open>The three arrays that \<open>parseFile\<close> fills.\<close>

record parse_state =
  st_symbols :: "ExtractedSymbol list"
  st_imports :: "ExtractedImport list"
  st_errors :: "string list"

definition on_symbols ::
  "(ExtractedSymbol list \<Rightarrow> ExtractedSymbol list outcome) \<Rightarrow> parse_state \<Rightarrow> parse_state outcome" where
  "on_symbols h s =
     (case h (st_symbols s) of
        Returned symbols \<Rightarrow> Returned (s\<lparr>st_symbols := symbols\<rparr>)
      | Raised e symbols \<Rightarrow> Raised e (s\<lparr>st_symbols := symbols\<rparr>))"

definition on_imports ::
  "(ExtractedImport list \<Rightarrow> ExtractedImport list outcome) \<Rightarrow> parse_state \<Rightarrow> parse_state outcome" where
  "on_imports h s =
     (case h (st_imports s) of
        Returned imports_array \<Rightarrow> Returned (s\<lparr>st_imports := imports_array\<rparr>)
      | Raised e imports_array \<Rightarrow> Raised e (s\<lparr>st_imports := imports_array\<rparr>))"

text \<open>
  The chain of \<open>if\<close> and \<open>else if\<close> of \<open>visit\<close> that picks the handler. The handlers of
  export declarations and export assignments are empty.
\<close>

definition handle_node ::
  "node_kind \<Rightarrow> modifier list \<Rightarrow> position \<Rightarrow> position \<Rightarrow> string option
     \<Rightarrow> parse_state \<Rightarrow> parse_state outcome" where
  "handle_node k modifiers start en parentScope s =
     (case k of
        FunctionDeclaration name fl \<Rightarrow>
          on_symbols (handleFunctionDeclaration name fl modifiers start en parentScope) s
      | ClassDeclaration name \<Rightarrow>
          on_symbols (handleClassDeclaration name modifiers start en parentScope) s
      | InterfaceDeclaration text \<Rightarrow>
          on_symbols (handleInterfaceDeclaration text modifiers start en parentScope) s
      | TypeAliasDeclaration text type_text \<Rightarrow>
          on_symbols (handleTypeAliasDeclaration text type_text modifiers start en parentScope) s
      | EnumDeclaration text \<Rightarrow>
          on_symbols (handleEnumDeclaration text modifiers start en parentScope) s
      | VariableStatement isConst declarations \<Rightarrow>
          on_symbols (handleVariableStatement isConst declarations modifiers parentScope) s
      | MethodDeclaration name fl \<Rightarrow>
          on_symbols (handleMethodDeclaration name fl start en parentScope) s
      | PropertyDeclaration name type_text \<Rightarrow>
          on_symbols (handlePropertyDeclaration name type_text start parentScope) s
      | ImportDeclaration moduleSpecifier importClause \<Rightarrow>
          on_imports (handleImportDeclaration moduleSpecifier importClause start) s
      | ExportDeclaration \<Rightarrow> Returned s
      | ExportAssignment \<Rightarrow> Returned s
      | OtherSyntax \<Rightarrow> Returned s)"

text \<open>
  The scope that the children of a node are visited with: the name of a class (absent
  for a class without a name) for its members, the scope of the parent otherwise.
\<close>

definition child_scope :: "node_kind \<Rightarrow> string option \<Rightarrow> string option" where
  "child_scope k parentScope = (case k of ClassDeclaration name \<Rightarrow> name | _ \<Rightarrow> parentScope)"

text \<open>
  \<open>visit\<close>: the handler, then the children, all inside a \<open>try\<close> whose \<open>catch\<close> is empty.
  \<open>visit_children\<close> is \<open>forEachChild\<close> with \<open>visit\<close> as its callback: a callback that
  raised would end the loop.
\<close>

fun visit :: "node \<Rightarrow> string option \<Rightarrow> parse_state \<Rightarrow> parse_state outcome"
  and visit_children :: "node list \<Rightarrow> string option \<Rightarrow> parse_state \<Rightarrow> parse_state outcome" where
  "visit (Node k modifiers start en children) parentScope s =
     try_catch
       (case handle_node k modifiers start en parentScope s of
          Raised e s' \<Rightarrow> Raised e s'
        | Returned s' \<Rightarrow> visit_children children (child_scope k parentScope) s')
       (\<lambda>err s'. Returned s')"
| "visit_children [] scope_name s = Returned s"
| "visit_children (child # rest) scope_name s =
     (case visit child scope_name s of
        Raised e s' \<Rightarrow> Raised e s'
      | Returned s' \<Rightarrow> visit_children rest scope_name s')"

text \<open>\<open>err instanceof Error ? err.message : String(err)\<close>\<close>

fun message_of :: "error \<Rightarrow> string" where
  "message_of (NotFound i) = ''Cannot supersede non-existent solution: '' @ i"
| "message_of ConstraintViolation = ''constraint failed''"
| "message_of ModelUnavailable = ''model unavailable''"
| "message_of DimensionMismatch = ''dimension mismatch''"
| "message_of SyntaxError = ''JSON Parse error''"
| "message_of (OtherFailure m) = m"

text \<open>
  \<open>parseFile\<close>. \<open>createSourceFile\<close> is the compiler's; it is a parameter of the model. The
  result is \<open>Inl\<close> when an error leaves \<open>parseFile\<close>.
\<close>

definition parseFile ::
  "(string \<Rightarrow> string \<Rightarrow> ScriptKind \<Rightarrow> node api) \<Rightarrow> string \<Rightarrow> string \<Rightarrow> error + ParseResult" where
  "parseFile createSourceFile filePath content =
     (let s0 = \<lparr>st_symbols = [], st_imports = [], st_errors = []\<rparr> in
      case try_catch
             (let scriptKind = getScriptKind filePath in
              call (createSourceFile filePath content scriptKind) s0 (\<lambda>sourceFile.
                visit sourceFile None s0))
             (\<lambda>err s. Returned (s\<lparr>st_errors := st_errors s @ [''Parse error: '' @ message_of err]\<rparr>))
      of Raised e s \<Rightarrow> Inl e
       | Returned s \<Rightarrow>
           Inr \<lparr>pr_symbols = st_symbols s, pr_imports = st_imports s,
                pr_errors = (if length (st_errors s) > 0 then Some (st_errors s) else None)\<rparr>)"


definition hit :: "externals \<Rightarrow> real \<Rightarrow> solution_row \<Rightarrow> solution_row \<Rightarrow> MergeCandidate list" where
  "hit ext th x y =
     (case pair_similarity ext x y of
        None \<Rightarrow> []
      | Some s \<Rightarrow> if s \<ge> th then [\<lparr>cand_a = x, cand_b = y, cand_similarity = s\<rparr>] else [])"

fun scan_result :: "externals \<Rightarrow> real \<Rightarrow> solution_row list \<Rightarrow> MergeCandidate list" where
  "scan_result ext th [] = []"
| "scan_result ext th (x # rest) = concat (map (hit ext th x) rest) @ scan_result ext th rest"

text \<open>
  For the proofs about the parser: the state that an outcome carries, whether it is a
  return, the property of claim C10 for one symbol, an outcome or a state put after what
  was collected before, and what the visit of one node collects when it starts from empty
  arrays.
\<close>

fun state_of :: "'s outcome \<Rightarrow> 's" where
  "state_of (Returned s) = s"
| "state_of (Raised e s) = s"

fun has_returned :: "'s outcome \<Rightarrow> bool" where
  "has_returned (Returned s) = True"
| "has_returned (Raised e s) = False"

definition symbol_ok :: "ExtractedSymbol \<Rightarrow> bool" where
  "symbol_ok x = (if sym_kind x = KMethod \<or> sym_kind x = KProperty
                  then \<not> sym_exported x \<and> \<not> sym_isDefault x else True)"

fun shift :: "'a list \<Rightarrow> 'a list outcome \<Rightarrow> 'a list outcome" where
  "shift pre (Returned xs) = Returned (pre @ xs)"
| "shift pre (Raised e xs) = Raised e (pre @ xs)"

definition extend :: "parse_state \<Rightarrow> parse_state \<Rightarrow> parse_state" where
  "extend s t =
     \<lparr>st_symbols = st_symbols s @ st_symbols t, st_imports = st_imports s @ st_imports t,
      st_errors = st_errors s @ st_errors t\<rparr>"

definition empty_state :: parse_state where
  "empty_state = \<lparr>st_symbols = [], st_imports = [], st_errors = []\<rparr>"

fun shift_state :: "parse_state \<Rightarrow> parse_state outcome \<Rightarrow> parse_state outcome" where
  "shift_state s (Returned t) = Returned (extend s t)"
| "shift_state s (Raised e t) = Raised e (extend s t)"

definition yield :: "node \<Rightarrow> string option \<Rightarrow> parse_state" where
  "yield n sc = state_of (visit n sc empty_state)"

section \<open>What the parser collects, written without exceptions\<close>



























section \<open>The complexity derivation, as the specification words it\<close>


section \<open>A small store, for the concrete instances\<close>

text \<open>
  Toy collaborators: an embedding of two components (the length of the text, and 1), one
  byte for each component, and a similarity that is 1 on equal vectors, 11/12 on vectors
  with the same first component and 1/4 otherwise.
\<close>

definition example_externals :: externals where
  "example_externals =
     \<lparr>getEmbedding = (\<lambda>t. if t = [] then Inl ModelUnavailable else Inr [real (length t), 1]),
      embeddingToBuffer = map (\<lambda>x. word_of_int \<lfloor>x\<rfloor>),
      bufferToEmbedding = (\<lambda>b. Inr (map (\<lambda>w. real (unat w)) b)),
      cosineSimilarity = (\<lambda>a b. if length a \<noteq> length b then Inl DimensionMismatch
                                 else if a = b then Inr 1
                                 else if hd a = hd b then Inr (11 / 12) else Inr (1 / 4))\<rparr>"

definition example_row :: solution_row where
  "example_row =
     \<lparr>col_id = ''sol_0000000a'', col_repo_id = ''repo_1'', col_problem = ''OAuth integration'',
      col_problem_embedding = [5, 2],
      col_solution = ''Use passport.js'', col_scope = Global,
      col_context = [], col_tags = TagsArray [''auth''],
      col_score = 1 / 2, col_category = None, col_complexity = 1,
      col_prerequisites = [], col_anti_patterns = [], col_code_blocks = [],
      col_related_solutions = [], col_supersedes = None,
      col_uses = 3, col_successes = 2, col_partial_successes = 1, col_failures = 0\<rparr>"

definition example_db :: db where
  "example_db = \<lparr>solutions = [example_row], usage_log = []\<rparr>"

definition example_input :: StoreInput where
  "example_input =
     \<lparr>problem = ''OAuth'', solution = ''use passport'', scope = Global, tags = None,
      filesAffected = Some [''a.ts'', ''b.ts''], category = None, complexity = None,
      prerequisites = Some [''node''], antiPatterns = None, codeBlocks = None,
      relatedSolutions = None, supersedes = None\<rparr>"




text \<open>
  Rows with embeddings of 384 components, for the candidate scan; \<open>example_row\<close>, with
  two components, stands among them as the row of the wrong dimension.
\<close>

definition example_wide :: "string \<Rightarrow> 8 word \<Rightarrow> solution_row" where
  "example_wide i v = example_row\<lparr>col_id := i, col_problem_embedding := replicate 384 v\<rparr>"

definition example_solutions :: "solution_row list" where
  "example_solutions =
     [example_wide ''sol_00000001'' 5, example_row, example_wide ''sol_00000002'' 5,
      example_wide ''sol_00000003'' 9]"

text \<open>
  A source file with an import, a function whose start position cannot be computed, and
  an exported default class with a property and a method; and what \<open>parseFile\<close> returns
  for it.
\<close>

definition example_tree :: node where
  "example_tree =
     Node OtherSyntax [] (Inr (0, 0)) (Inr (9, 0))
       [Node (ImportDeclaration (Some ''./bar'')
                (Some \<lparr>ic_isTypeOnly = False, ic_name = Some ''Bar'', ic_namedBindings = None\<rparr>))
          [] (Inr (0, 0)) (Inr (0, 22)) [],
        Node (FunctionDeclaration (Some ''broken'') \<lparr>fl_parameters = [], fl_type_text = None\<rparr>)
          [ExportKeyword] (Inl (OtherFailure ''Debug Failure'')) (Inr (2, 1)) [],
        Node (ClassDeclaration (Some ''Store'')) [ExportKeyword, DefaultKeyword]
          (Inr (3, 0)) (Inr (8, 1))
          [Node (PropertyDeclaration (Identifier ''size'') (Some (Inr ''number'')))
             [] (Inr (4, 2)) (Inr (4, 15)) [],
           Node (MethodDeclaration (Identifier ''get'')
                   \<lparr>fl_parameters =
                      [\<lparr>p_name_text = Inr ''id'', p_type_text = Some (Inr ''string''),
                        p_questionToken = False\<rparr>],
                    fl_type_text = None\<rparr>)
             [] (Inr (5, 2)) (Inr (7, 3)) []]]"

definition example_compiler :: "string \<Rightarrow> string \<Rightarrow> ScriptKind \<Rightarrow> node api" where
  "example_compiler filePath content scriptKind = Inr example_tree"

definition example_result :: ParseResult where
  "example_result =
     \<lparr>pr_symbols =
        [\<lparr>sym_name = ''Store'', sym_kind = KClass, sym_line = 4, sym_column = 0,
          sym_endLine = Some 9, sym_exported = True, sym_isDefault = True,
          sym_scope = None, sym_signature = None\<rparr>,
         \<lparr>sym_name = ''size'', sym_kind = KProperty, sym_line = 5, sym_column = 2,
          sym_endLine = None, sym_exported = False, sym_isDefault = False,
          sym_scope = Some ''Store'', sym_signature = Some ''number''\<rparr>,
         \<lparr>sym_name = ''get'', sym_kind = KMethod, sym_line = 6, sym_column = 2,
          sym_endLine = Some 8, sym_exported = False, sym_isDefault = False,
          sym_scope = Some ''Store'', sym_signature = Some ''(id: string)''\<rparr>],
      pr_imports =
        [\<lparr>imp_importedName = ''Bar'', imp_localName = None, imp_sourcePath = ''./bar'',
          imp_isDefault = True, imp_isNamespace = False, imp_isType = False, imp_line = 1\<rparr>],
      pr_errors = None\<rparr>"








text \<open>For the proofs about the diff: the test of \<open>computeDiff\<close> for a modified file.\<close>

definition is_modified :: "indexed_files \<Rightarrow> ScannedFile \<Rightarrow> bool" where
  "is_modified indexedFiles f =
     (case map_of indexedFiles (path f) of None \<Rightarrow> False | Some r \<Rightarrow> mtime f > row_mtime r)"

section \<open>Properties of the file diff\<close>

lemma scan_loop_eq:
  "scan_loop ix fs (a, m, s) =
     (a @ filter (\<lambda>f. map_of ix (path f) = None) fs,
      m @ filter (is_modified ix) fs,
      s \<union> path ` set fs)"
  by (induction fs arbitrary: a m s) (auto simp: is_modified_def split: option.splits)

lemma deleted_loop_eq:
  "deleted_loop s ps del = del @ filter (\<lambda>p. p \<notin> s) ps"
  by (induction ps arbitrary: del) auto

lemma computeDiff_eq:
  "computeDiff fs ix =
     \<lparr>added = filter (\<lambda>f. map_of ix (path f) = None) fs,
      modified = filter (is_modified ix) fs,
      deleted = filter (\<lambda>p. p \<notin> path ` set fs) (map fst ix)\<rparr>"
  by (simp add: computeDiff_def scan_loop_eq deleted_loop_eq)

lemma is_modified_iff:
  "is_modified ix f \<longleftrightarrow> (\<exists>r. map_of ix (path f) = Some r \<and> mtime f > row_mtime r)"
  by (simp add: is_modified_def split: option.splits)

text \<open>
  Claim C2. For every list of scanned files and every map of indexed rows, a scanned file
  is reported as added exactly when no indexed row exists at its path, as modified exactly
  when a row exists and the scanned mtime is strictly greater than the indexed one, and in
  neither list otherwise; both lists hold scanned files only; the deleted list holds
  exactly the indexed paths that the scan did not produce. When every scanned path has a
  row with equal mtime and no indexed path is missing from the scan, the three lists are
  empty.
\<close>

theorem computeDiff_classifies:
  "(\<forall>f \<in> set scannedFiles.
      (f \<in> set (added (computeDiff scannedFiles indexedFiles))
         \<longleftrightarrow> map_of indexedFiles (path f) = None) \<and>
      (f \<in> set (modified (computeDiff scannedFiles indexedFiles))
         \<longleftrightarrow> (\<exists>r. map_of indexedFiles (path f) = Some r \<and> mtime f > row_mtime r)))
   \<and> set (added (computeDiff scannedFiles indexedFiles)) \<subseteq> set scannedFiles
   \<and> set (modified (computeDiff scannedFiles indexedFiles)) \<subseteq> set scannedFiles
   \<and> set (deleted (computeDiff scannedFiles indexedFiles))
       = fst ` set indexedFiles - path ` set scannedFiles
   \<and> ((\<forall>f \<in> set scannedFiles.
          \<exists>r. map_of indexedFiles (path f) = Some r \<and> row_mtime r = mtime f)
        \<and> fst ` set indexedFiles \<subseteq> path ` set scannedFiles
       \<longrightarrow> added (computeDiff scannedFiles indexedFiles) = []
         \<and> modified (computeDiff scannedFiles indexedFiles) = []
         \<and> deleted (computeDiff scannedFiles indexedFiles) = [])"
proof -
  let ?d = "computeDiff scannedFiles indexedFiles"
  have a: "\<forall>f \<in> set scannedFiles.
      (f \<in> set (added ?d) \<longleftrightarrow> map_of indexedFiles (path f) = None) \<and>
      (f \<in> set (modified ?d)
         \<longleftrightarrow> (\<exists>r. map_of indexedFiles (path f) = Some r \<and> mtime f > row_mtime r))"
    by (simp add: computeDiff_eq is_modified_iff)
  have b: "set (added ?d) \<subseteq> set scannedFiles" "set (modified ?d) \<subseteq> set scannedFiles"
    by (auto simp: computeDiff_eq)
  have c: "set (deleted ?d) = fst ` set indexedFiles - path ` set scannedFiles"
    by (auto simp: computeDiff_eq)
  have d: "added ?d = [] \<and> modified ?d = [] \<and> deleted ?d = []"
    if h: "\<forall>f \<in> set scannedFiles.
            \<exists>r. map_of indexedFiles (path f) = Some r \<and> row_mtime r = mtime f"
      and k: "fst ` set indexedFiles \<subseteq> path ` set scannedFiles"
  proof -
    have "filter (\<lambda>f. map_of indexedFiles (path f) = None) scannedFiles = []"
      using h by (auto simp: filter_empty_conv)
    moreover have "filter (is_modified indexedFiles) scannedFiles = []"
      using h by (auto simp: filter_empty_conv is_modified_iff)
    moreover have "filter (\<lambda>p. p \<notin> path ` set scannedFiles) (map fst indexedFiles) = []"
      using k by (auto simp: filter_empty_conv)
    ultimately show ?thesis by (simp add: computeDiff_eq)
  qed
  from a b c d show ?thesis by blast
qed


theorem computeDiff_classifies_witness:
  "\<lparr>path = ''a.ts'', absolutePath = ''/r/a.ts'', mtime = 5\<rparr>
      \<in> set (added (computeDiff
          [\<lparr>path = ''a.ts'', absolutePath = ''/r/a.ts'', mtime = 5\<rparr>, \<lparr>path = ''b.ts'', absolutePath = ''/r/b.ts'', mtime = 7\<rparr>,
           \<lparr>path = ''c.ts'', absolutePath = ''/r/c.ts'', mtime = 3\<rparr>]
          [(''b.ts'', \<lparr>row_mtime = 6\<rparr>), (''c.ts'', \<lparr>row_mtime = 3\<rparr>),
           (''d.ts'', \<lparr>row_mtime = 1\<rparr>)]))
   \<and> \<lparr>path = ''b.ts'', absolutePath = ''/r/b.ts'', mtime = 7\<rparr>
      \<in> set (modified (computeDiff
          [\<lparr>path = ''a.ts'', absolutePath = ''/r/a.ts'', mtime = 5\<rparr>, \<lparr>path = ''b.ts'', absolutePath = ''/r/b.ts'', mtime = 7\<rparr>,
           \<lparr>path = ''c.ts'', absolutePath = ''/r/c.ts'', mtime = 3\<rparr>]
          [(''b.ts'', \<lparr>row_mtime = 6\<rparr>), (''c.ts'', \<lparr>row_mtime = 3\<rparr>),
           (''d.ts'', \<lparr>row_mtime = 1\<rparr>)]))
   \<and> added (computeDiff [\<lparr>path = ''c.ts'', absolutePath = ''/r/c.ts'', mtime = 3\<rparr>] [(''c.ts'', \<lparr>row_mtime = 3\<rparr>)]) = []
   \<and> modified (computeDiff [\<lparr>path = ''c.ts'', absolutePath = ''/r/c.ts'', mtime = 3\<rparr>] [(''c.ts'', \<lparr>row_mtime = 3\<rparr>)]) = []
   \<and> deleted (computeDiff [\<lparr>path = ''c.ts'', absolutePath = ''/r/c.ts'', mtime = 3\<rparr>] [(''c.ts'', \<lparr>row_mtime = 3\<rparr>)]) = []"
proof -
  let ?s = "[\<lparr>path = ''a.ts'', absolutePath = ''/r/a.ts'', mtime = 5\<rparr>, \<lparr>path = ''b.ts'', absolutePath = ''/r/b.ts'', mtime = 7\<rparr>,
             \<lparr>path = ''c.ts'', absolutePath = ''/r/c.ts'', mtime = 3\<rparr>]"
  let ?i = "[(''b.ts'', \<lparr>row_mtime = 6\<rparr>), (''c.ts'', \<lparr>row_mtime = 3\<rparr>),
             (''d.ts'', \<lparr>row_mtime = 1\<rparr>)]"
  let ?s1 = "[\<lparr>path = ''c.ts'', absolutePath = ''/r/c.ts'', mtime = 3\<rparr>]"
  let ?i1 = "[(''c.ts'', \<lparr>row_mtime = 3\<rparr>)]"
  have m: "\<lparr>path = ''a.ts'', absolutePath = ''/r/a.ts'', mtime = 5\<rparr> \<in> set ?s" "\<lparr>path = ''b.ts'', absolutePath = ''/r/b.ts'', mtime = 7\<rparr> \<in> set ?s"
    by simp_all
  have a: "map_of ?i (path \<lparr>path = ''a.ts'', absolutePath = ''/r/a.ts'', mtime = 5\<rparr>) = None"
    by simp
  have b: "\<exists>r. map_of ?i (path \<lparr>path = ''b.ts'', absolutePath = ''/r/b.ts'', mtime = 7\<rparr>) = Some r
             \<and> mtime \<lparr>path = ''b.ts'', absolutePath = ''/r/b.ts'', mtime = 7\<rparr> > row_mtime r"
    by simp
  have u: "(\<forall>f \<in> set ?s1. \<exists>r. map_of ?i1 (path f) = Some r \<and> row_mtime r = mtime f)
             \<and> fst ` set ?i1 \<subseteq> path ` set ?s1"
    by simp
  from computeDiff_classifies [of ?s ?i] m a b
  have "\<lparr>path = ''a.ts'', absolutePath = ''/r/a.ts'', mtime = 5\<rparr> \<in> set (added (computeDiff ?s ?i))"
    and "\<lparr>path = ''b.ts'', absolutePath = ''/r/b.ts'', mtime = 7\<rparr> \<in> set (modified (computeDiff ?s ?i))"
    by blast+
  moreover from computeDiff_classifies [of ?s1 ?i1] u
  have "added (computeDiff ?s1 ?i1) = [] \<and> modified (computeDiff ?s1 ?i1) = []
          \<and> deleted (computeDiff ?s1 ?i1) = []"
    by blast
  ultimately show ?thesis by blast
qed

section \<open>Properties of the store\<close>






lemma similar_rows_iff:
  "(i, s) \<in> set (similar_rows ext q m d) \<longleftrightarrow>
     (\<exists>r \<in> set (solutions d). col_id r = i \<and> row_similarity ext q r = Some s \<and> m \<le> s)"
proof -
  have "set (similar_rows ext q m d) =
          {(col_id r, s') | r s'. r \<in> set (solutions d) \<and> row_similarity ext q r = Some s' \<and> m \<le> s'}"
    unfolding similar_rows_def by (auto split: option.splits if_splits)
  then show ?thesis by auto
qed

lemma search_one_Nil:
  "searchSimilarSolutions ext q 1 m d = [] \<longleftrightarrow> similar_rows ext q m d = []"
proof -
  have "sort_key (\<lambda>m. - snd m) (similar_rows ext q m d) = [] \<longleftrightarrow> similar_rows ext q m d = []"
    by (metis length_sort length_0_conv)
  then show ?thesis
    by (simp add: searchSimilarSolutions_def take_eq_Nil)
qed

lemma search_one_Cons:
  assumes "searchSimilarSolutions ext q 1 m d = dup # rest"
  shows "dup \<in> set (similar_rows ext q m d)"
    and "\<forall>x \<in> set (similar_rows ext q m d). snd x \<le> snd dup"
proof -
  let ?xs = "sort_key (\<lambda>m. - snd m) (similar_rows ext q m d)"
  from assms obtain ys where ys: "?xs = dup # ys"
    by (cases ?xs) (auto simp: searchSimilarSolutions_def)
  have "set ?xs = set (similar_rows ext q m d)" by simp
  with ys show "dup \<in> set (similar_rows ext q m d)" by (metis list.set_intros(1))
  have "sorted (map (\<lambda>m. - snd m) ?xs)" by (rule sorted_sort_key)
  with ys have "\<forall>x \<in> set ?xs. - snd dup \<le> - snd x" by auto
  then show "\<forall>x \<in> set (similar_rows ext q m d). snd x \<le> snd dup" by simp
qed

lemma select_by_id_Some:
  "i \<in> col_id ` set (solutions d) \<Longrightarrow> \<exists>r. select_by_id i d = Some r \<and> col_id r = i \<and> r \<in> set (solutions d)"
  unfolding select_by_id_def
  by (cases "find (\<lambda>r. col_id r = i) (solutions d)") (auto simp: find_None_iff find_Some_iff)

lemma select_by_id_None: "select_by_id i d = None \<longleftrightarrow> i \<notin> col_id ` set (solutions d)"
  by (auto simp: select_by_id_def find_None_iff)

lemma to_double_binade:
  assumes "2 powr of_int e \<le> \<bar>x\<bar>" and "\<bar>x\<bar> < 2 powr (of_int e + 1)"
  shows "to_double x
           = of_int (round_half_even (x / 2 powr (of_int e - 52))) * 2 powr (of_int e - 52)"
proof -
  have pos: "0 < \<bar>x\<bar>" using assms(1) by (smt (verit) powr_gt_zero)
  have "\<lfloor>log 2 \<bar>x\<bar>\<rfloor> = e"
    using assms pos by (simp add: floor_log_eq_powr_iff)
  moreover from pos have "x \<noteq> 0" by simp
  ultimately show ?thesis by (simp add: to_double_def Let_def)
qed

lemma to_double_binade_9:
  assumes "512 \<le> x" and "x < 1024"
  shows "to_double x = of_int (round_half_even (x * 2 ^ 43)) / 2 ^ 43"
proof -
  have "to_double x
          = of_int (round_half_even (x / 2 powr (of_int 9 - 52))) * 2 powr (of_int 9 - 52)"
    using assms by (intro to_double_binade) simp_all
  also have "2 powr (of_int 9 - 52) = (1 / 2 ^ 43 :: real)"
    by (simp add: powr_minus_divide)
  finally show ?thesis by simp
qed

lemma to_double_binade_m1:
  assumes "1 / 2 \<le> x" and "x < 1"
  shows "to_double x = of_int (round_half_even (x * 2 ^ 53)) / 2 ^ 53"
proof -
  have "to_double x
          = of_int (round_half_even (x / 2 powr (of_int (- 1) - 52))) * 2 powr (of_int (- 1) - 52)"
    using assms by (intro to_double_binade) (simp_all add: powr_minus_divide)
  also have "2 powr (of_int (- 1) - 52) = (1 / 2 ^ 53 :: real)"
    by (simp add: powr_minus_divide)
  finally show ?thesis by simp
qed


text \<open>
  The double written 0.9005 lies below 9005/10000, but its product with 1000 rounds to
  900.5, so that \<open>Math.round\<close> gives 901 and the result is the double that prints as
  0.901.
\<close>

lemma round3_double_0_9005:
  "round3 (8110982928894263 / 9007199254740992) = 4057743264260817 / 4503599627370496"
proof -
  have p: "to_double (8110982928894263 / 9007199254740992 * 1000) = 1801 / 2"
    by (subst to_double_binade_9) (simp_all add: round_half_even_def Let_def)
  have "\<lfloor>to_double (8110982928894263 / 9007199254740992 * 1000) + 1 / 2\<rfloor> = 901"
    unfolding p by simp
  then have "round3 (8110982928894263 / 9007199254740992) = to_double (901 / 1000)"
    unfolding round3_def by simp
  also have "\<dots> = 4057743264260817 / 4503599627370496"
    by (subst to_double_binade_m1) (simp_all add: round_half_even_def Let_def)
  finally show ?thesis .
qed

lemma matrixStore_duplicate:
  assumes "repo = Inr repoId"
    and "getEmbedding ext (problem input) = Inr emb"
    and "\<exists>r \<in> set (solutions d). \<exists>s. row_similarity ext emb r = Some s \<and> 9 / 10 \<le> s"
  shows "\<exists>res r s. matrixStore ext uuid repo input d = (Inr res, d)
           \<and> r_status res = Duplicate
           \<and> r \<in> set (solutions d) \<and> r_id res = col_id r
           \<and> row_similarity ext emb r = Some s \<and> 9 / 10 \<le> s
           \<and> (\<forall>r' \<in> set (solutions d). \<forall>s'. row_similarity ext emb r' = Some s' \<longrightarrow> s' \<le> s)
           \<and> r_similarity res = Some (round3 s)"
proof -
  from assms(3) have ne: "similar_rows ext emb (9 / 10) d \<noteq> []"
    using similar_rows_iff [of _ _ ext emb "9 / 10" d] by (metis empty_iff empty_set)
  then obtain dup rest where dr: "searchSimilarSolutions ext emb 1 (9 / 10) d = dup # rest"
    using search_one_Nil [of ext emb "9 / 10" d]
    by (cases "searchSimilarSolutions ext emb 1 (9 / 10) d") auto
  from search_one_Cons [OF dr]
  have mem: "dup \<in> set (similar_rows ext emb (9 / 10) d)"
    and top: "\<forall>x \<in> set (similar_rows ext emb (9 / 10) d). snd x \<le> snd dup" by auto
  from mem obtain r where r: "r \<in> set (solutions d)" "col_id r = fst dup"
    "row_similarity ext emb r = Some (snd dup)" "9 / 10 \<le> snd dup"
    using similar_rows_iff [of "fst dup" "snd dup" ext emb "9 / 10" d] by auto
  from r(1,2) have "fst dup \<in> col_id ` set (solutions d)" by force
  then obtain ex where ex: "select_by_id (fst dup) d = Some ex" "col_id ex = fst dup"
    using select_by_id_Some [of "fst dup" d] by auto
  have best: "\<forall>r' \<in> set (solutions d). \<forall>s'. row_similarity ext emb r' = Some s' \<longrightarrow> s' \<le> snd dup"
  proof (intro ballI allI impI)
    fix r' s' assume a: "r' \<in> set (solutions d)" "row_similarity ext emb r' = Some s'"
    show "s' \<le> snd dup"
    proof (cases "9 / 10 \<le> s'")
      case True
      with a have "(col_id r', s') \<in> set (similar_rows ext emb (9 / 10) d)"
        by (auto simp: similar_rows_iff)
      with top show ?thesis by fastforce
    next
      case False
      with r(4) show ?thesis by simp
    qed
  qed
  let ?res = "\<lparr>r_id = col_id ex, r_status = Duplicate,
                               r_problem = preview (col_problem ex),
                               r_scope = scope input, r_tags = or_empty (tags input),
                               r_similarity = Some (round3 (snd dup)),
                               r_category = col_category ex, r_complexity = None,
                               r_supersededId = None\<rparr>"
  have run: "matrixStore ext uuid repo input d = (Inr ?res, d)"
    using dr by (simp add: matrixStore_def assms(1,2) ex(1))
  have h: "r_status ?res = Duplicate" "r_id ?res = col_id r"
    "r_similarity ?res = Some (round3 (snd dup))"
    by (simp_all add: ex(2) r(2))
  show ?thesis
    by (rule exI [of _ ?res], rule exI [of _ r], rule exI [of _ "snd dup"])
       (intro conjI run h r(1,3,4) best)
qed

lemma example_sim: "row_similarity example_externals [5, 1] example_row = Some (11 / 12)"
  by (simp add: row_similarity_def example_externals_def example_row_def)







lemma example_db_similar:
  "\<exists>r \<in> set (solutions example_db). \<exists>s. row_similarity example_externals [5, 1] r = Some s \<and> 9 / 10 \<le> s"
proof (rule bexI [of _ example_row])
  show "\<exists>s. row_similarity example_externals [5, 1] example_row = Some s \<and> 9 / 10 \<le> s"
    by (rule exI [of _ "11 / 12"]) (simp add: example_sim)
  show "example_row \<in> set (solutions example_db)"
    by (simp add: example_db_def)
qed








text \<open>
  Claim C9. The duplicate check comes before the supersedes check: when a stored
  solution has similarity at least 0.9 to the problem, \<open>matrixStore\<close> returns status
  duplicate and raises no error, also when \<open>supersedes\<close> names an id that no row has.
\<close>

theorem duplicate_check_precedes_supersedes:
  assumes "repo = Inr repoId"
    and "getEmbedding ext (problem input) = Inr emb"
    and "\<exists>r \<in> set (solutions d). \<exists>s. row_similarity ext emb r = Some s \<and> 9 / 10 \<le> s"
    and "supersedes input = Some t" and "select_by_id t d = None"
  shows "(\<exists>res. matrixStore ext uuid repo input d = (Inr res, d) \<and> r_status res = Duplicate)
       \<and> (\<forall>e. fst (matrixStore ext uuid repo input d) \<noteq> Inl e)"
proof -
  from matrixStore_duplicate [OF assms(1-3), of uuid]
  obtain res where h: "matrixStore ext uuid repo input d = (Inr res, d)" "r_status res = Duplicate"
    by blast
  then have "\<exists>res. matrixStore ext uuid repo input d = (Inr res, d) \<and> r_status res = Duplicate"
    by blast
  moreover from h(1) have "\<forall>e. fst (matrixStore ext uuid repo input d) \<noteq> Inl e" by simp
  ultimately show ?thesis by (rule conjI)
qed

text \<open>
  Claim C7. When no stored solution has similarity at least 0.9 to the problem and
  \<open>supersedes\<close> names an id that no row has, \<open>matrixStore\<close> fails with NotFound for that
  id and leaves the database as it was. (An empty \<open>supersedes\<close> string is falsy in
  JavaScript: it names no id and counts as absent.)
\<close>

theorem matrixStore_supersedes_missing:
  assumes "repo = Inr repoId"
    and "getEmbedding ext (problem input) = Inr emb"
    and "\<forall>r \<in> set (solutions d). \<forall>s. row_similarity ext emb r = Some s \<longrightarrow> s < 9 / 10"
    and "supersedes input = Some t" and "t \<noteq> []" and "t \<notin> col_id ` set (solutions d)"
  shows "matrixStore ext uuid repo input d = (Inl (NotFound t), d)"
proof -
  have "similar_rows ext emb (9 / 10) d = []"
  proof (rule ccontr)
    assume "similar_rows ext emb (9 / 10) d \<noteq> []"
    then obtain x rest where xr: "similar_rows ext emb (9 / 10) d = x # rest"
      by (cases "similar_rows ext emb (9 / 10) d") auto
    obtain i s where "x = (i, s)" by (cases x)
    with xr have "(i, s) \<in> set (similar_rows ext emb (9 / 10) d)" by simp
    with assms(3) show False by (fastforce simp: similar_rows_iff)
  qed
  then have s: "searchSimilarSolutions ext emb 1 (9 / 10) d = []" by (simp only: search_one_Nil)
  from assms(6) have "select_by_id t d = None" by (simp add: select_by_id_None)
  with assms(4,5) have m: "missing_target (supersedes input) d = Some t"
    by (simp add: missing_target_def)
  have "store_new ext (''sol_'' @ take 8 uuid) repoId emb input d = (Inl (NotFound t), d)"
    by (simp add: store_new_def m)
  then show ?thesis
    unfolding matrixStore_def Let_def using s by (simp add: assms(1,2))
qed


theorem duplicate_check_precedes_supersedes_witness:
  "(\<exists>res. matrixStore example_externals ''1b9d6bcd-bbfd'' (Inr ''repo_1'')
            (example_input\<lparr>supersedes := Some ''sol_missing''\<rparr>) example_db = (Inr res, example_db)
          \<and> r_status res = Duplicate)
   \<and> select_by_id ''sol_missing'' example_db = None"
proof -
  let ?input = "example_input\<lparr>supersedes := Some ''sol_missing''\<rparr>"
  have e: "getEmbedding example_externals (problem ?input) = Inr [5, 1]"
    by (simp add: example_externals_def example_input_def)
  have t: "supersedes ?input = Some ''sol_missing''" by simp
  have n: "select_by_id ''sol_missing'' example_db = None"
    by (simp add: select_by_id_def example_db_def) (simp add: example_row_def)
  from duplicate_check_precedes_supersedes [OF refl e example_db_similar t n] n
  show ?thesis by blast
qed

theorem matrixStore_supersedes_missing_witness:
  "matrixStore example_externals ''1b9d6bcd-bbfd'' (Inr ''repo_1'')
     (example_input\<lparr>problem := ''Rate limiting'', supersedes := Some ''sol_missing''\<rparr>) example_db
     = (Inl (NotFound ''sol_missing''), example_db)"
proof -
  let ?input = "example_input\<lparr>problem := ''Rate limiting'', supersedes := Some ''sol_missing''\<rparr>"
  have e: "getEmbedding example_externals (problem ?input) = Inr [13, 1]"
    by (simp add: example_externals_def)
  have far: "\<forall>r \<in> set (solutions example_db).
               \<forall>s. row_similarity example_externals [13, 1] r = Some s \<longrightarrow> s < 9 / 10"
    by (simp add: example_db_def) (simp add: row_similarity_def example_externals_def example_row_def)
  have t: "supersedes ?input = Some ''sol_missing''" by simp
  have ne: "''sol_missing'' \<noteq> []" by simp
  have n: "''sol_missing'' \<notin> col_id ` set (solutions example_db)"
    by (simp add: example_db_def) (simp add: example_row_def)
  show ?thesis
    by (rule matrixStore_supersedes_missing [OF refl e far t ne n])
qed

section \<open>Properties of the merge\<close>


















lemma inner_loop_eq:
  "inner_loop ext th x ys cands = cands @ concat (map (hit ext th x) ys)"
  by (induction ys arbitrary: cands) (auto simp: hit_def split: option.splits)

lemma outer_loop_eq: "outer_loop ext th xs cands = cands @ scan_result ext th xs"
  by (induction xs arbitrary: cands) (simp_all add: inner_loop_eq)

lemma hit_iff:
  "c \<in> set (hit ext th x y) \<longleftrightarrow>
     cand_a c = x \<and> cand_b c = y \<and> pair_similarity ext x y = Some (cand_similarity c)
       \<and> th \<le> cand_similarity c"
  by (auto simp: hit_def split: option.splits)

lemma pair_similarity_iff:
  "pair_similarity ext x y = Some s \<longleftrightarrow>
     (\<exists>embA embB. bufferToEmbedding ext (col_problem_embedding x) = Inr embA
        \<and> bufferToEmbedding ext (col_problem_embedding y) = Inr embB
        \<and> length embA = 384 \<and> length embB = 384
        \<and> cosineSimilarity ext embA embB = Inr s)"
  by (auto simp: pair_similarity_def EMBEDDING_DIM_def split: sum.splits)

lemma scan_result_iff:
  "c \<in> set (scan_result ext th xs) \<longleftrightarrow>
     (\<exists>i j. i < j \<and> j < length xs \<and> c \<in> set (hit ext th (xs ! i) (xs ! j)))"
proof (induction xs)
  case Nil
  then show ?case by simp
next
  case (Cons x rest)
  have first: "c \<in> set (concat (map (hit ext th x) rest)) \<longleftrightarrow>
                 (\<exists>j. j < length rest \<and> c \<in> set (hit ext th x (rest ! j)))"
  proof -
    have "c \<in> set (concat (map (hit ext th x) rest)) \<longleftrightarrow>
            (\<exists>y \<in> set rest. c \<in> set (hit ext th x y))"
      by auto
    also have "\<dots> \<longleftrightarrow> (\<exists>j. j < length rest \<and> c \<in> set (hit ext th x (rest ! j)))"
      by (metis in_set_conv_nth)
    finally show ?thesis .
  qed
  show ?case
  proof
    assume "c \<in> set (scan_result ext th (x # rest))"
    then consider "c \<in> set (concat (map (hit ext th x) rest))" | "c \<in> set (scan_result ext th rest)"
      by auto
    then show "\<exists>i j. i < j \<and> j < length (x # rest)
                 \<and> c \<in> set (hit ext th ((x # rest) ! i) ((x # rest) ! j))"
    proof cases
      case 1
      with first obtain j where "j < length rest" "c \<in> set (hit ext th x (rest ! j))" by blast
      then have "0 < Suc j \<and> Suc j < length (x # rest)
                   \<and> c \<in> set (hit ext th ((x # rest) ! 0) ((x # rest) ! Suc j))"
        by simp
      then show ?thesis by blast
    next
      case 2
      with Cons.IH obtain i j where "i < j" "j < length rest"
        "c \<in> set (hit ext th (rest ! i) (rest ! j))" by blast
      then have "Suc i < Suc j \<and> Suc j < length (x # rest)
                   \<and> c \<in> set (hit ext th ((x # rest) ! Suc i) ((x # rest) ! Suc j))"
        by simp
      then show ?thesis by blast
    qed
  next
    assume "\<exists>i j. i < j \<and> j < length (x # rest)
              \<and> c \<in> set (hit ext th ((x # rest) ! i) ((x # rest) ! j))"
    then obtain i j where ij: "i < j" "j < length (x # rest)"
      "c \<in> set (hit ext th ((x # rest) ! i) ((x # rest) ! j))" by blast
    from ij(1) obtain j' where j': "j = Suc j'" by (cases j) auto
    show "c \<in> set (scan_result ext th (x # rest))"
    proof (cases i)
      case 0
      with ij j' have "j' < length rest \<and> c \<in> set (hit ext th x (rest ! j'))" by simp
      with first show ?thesis by auto
    next
      case (Suc i')
      with ij j' have "i' < j' \<and> j' < length rest \<and> c \<in> set (hit ext th (rest ! i') (rest ! j'))"
        by simp
      with Cons.IH show ?thesis by auto
    qed
  qed
qed

lemma scan_result_rows:
  "c \<in> set (scan_result ext th xs) \<Longrightarrow> cand_a c \<in> set xs \<and> cand_b c \<in> set xs"
  by (auto simp: scan_result_iff hit_iff)

lemma distinct_hits: "distinct ys \<Longrightarrow> distinct (concat (map (hit ext th x) ys))"
proof (induction ys)
  case Nil
  then show ?case by simp
next
  case (Cons y ys)
  have "distinct (hit ext th x y)" by (simp add: hit_def split: option.splits)
  moreover have "set (hit ext th x y) \<inter> set (concat (map (hit ext th x) ys)) = {}"
    using Cons.prems by (auto simp: hit_iff)
  ultimately show ?case using Cons by simp
qed

lemma distinct_scan_result: "distinct xs \<Longrightarrow> distinct (scan_result ext th xs)"
proof (induction xs)
  case Nil
  then show ?case by simp
next
  case (Cons x rest)
  have "set (concat (map (hit ext th x) rest)) \<inter> set (scan_result ext th rest) = {}"
  proof (rule ccontr)
    assume "set (concat (map (hit ext th x) rest)) \<inter> set (scan_result ext th rest) \<noteq> {}"
    then obtain c where c: "c \<in> set (concat (map (hit ext th x) rest))"
      "c \<in> set (scan_result ext th rest)" by blast
    from c(1) have "cand_a c = x" by (auto simp: hit_iff)
    moreover from c(2) have "cand_a c \<in> set rest" by (simp add: scan_result_rows)
    ultimately show False using Cons.prems by simp
  qed
  with Cons show ?case by (simp add: distinct_hits)
qed

lemma scan_result_short: "length xs < 2 \<Longrightarrow> scan_result ext th xs = []"
  by (cases xs; cases "tl xs") auto

lemma merge_candidates_set:
  "set (merge_candidates ext th sols) = set (scan_result ext th sols)"
  by (simp add: merge_candidates_def outer_loop_eq scan_result_short)

lemma merge_candidates_distinct:
  "distinct sols \<Longrightarrow> distinct (merge_candidates ext th sols)"
  by (simp add: merge_candidates_def outer_loop_eq distinct_scan_result)

lemma merge_candidates_sorted:
  "sorted_wrt (\<lambda>c c'. cand_similarity c \<ge> cand_similarity c') (merge_candidates ext th sols)"
proof -
  have "sorted (map (\<lambda>c. - cand_similarity c)
          (sort_key (\<lambda>c. - cand_similarity c) (outer_loop ext th sols [])))"
    by (rule sorted_sort_key)
  then show ?thesis
    by (simp add: merge_candidates_def sorted_map)
qed

text \<open>
  Claim C6. For every list of loaded solutions (with distinct ids) and every threshold,
  the candidates are exactly the pairs of rows at positions \<open>i < j\<close> whose two embeddings
  decode to 384 components and whose cosine similarity is at least the threshold, each
  with that similarity; every such pair occurs once and in one order only; the list is
  in descending order of similarity. A pair with an embedding of another dimension is not
  a candidate, and the other pairs are found all the same.
\<close>

theorem merge_candidates_exact:
  assumes "distinct (map col_id sols)"
  shows "(\<forall>c. c \<in> set (merge_candidates ext threshold sols) \<longleftrightarrow>
            (\<exists>i j embA embB. i < j \<and> j < length sols
               \<and> cand_a c = sols ! i \<and> cand_b c = sols ! j
               \<and> bufferToEmbedding ext (col_problem_embedding (sols ! i)) = Inr embA
               \<and> bufferToEmbedding ext (col_problem_embedding (sols ! j)) = Inr embB
               \<and> length embA = 384 \<and> length embB = 384
               \<and> cosineSimilarity ext embA embB = Inr (cand_similarity c)
               \<and> threshold \<le> cand_similarity c))
       \<and> distinct (merge_candidates ext threshold sols)
       \<and> (\<forall>c \<in> set (merge_candidates ext threshold sols).
            \<forall>c' \<in> set (merge_candidates ext threshold sols).
              \<not> (cand_a c' = cand_b c \<and> cand_b c' = cand_a c))
       \<and> sorted_wrt (\<lambda>c c'. cand_similarity c \<ge> cand_similarity c')
            (merge_candidates ext threshold sols)"
proof -
  let ?R = "merge_candidates ext threshold sols"
  from assms have d: "distinct sols" by (rule distinct_map [THEN iffD1, THEN conjunct1])
  have pos: "c \<in> set ?R \<longleftrightarrow>
           (\<exists>i j. i < j \<and> j < length sols \<and> cand_a c = sols ! i \<and> cand_b c = sols ! j
              \<and> pair_similarity ext (sols ! i) (sols ! j) = Some (cand_similarity c)
              \<and> threshold \<le> cand_similarity c)" for c
    unfolding merge_candidates_set scan_result_iff hit_iff by blast
  have exact: "\<forall>c. c \<in> set ?R \<longleftrightarrow>
            (\<exists>i j embA embB. i < j \<and> j < length sols
               \<and> cand_a c = sols ! i \<and> cand_b c = sols ! j
               \<and> bufferToEmbedding ext (col_problem_embedding (sols ! i)) = Inr embA
               \<and> bufferToEmbedding ext (col_problem_embedding (sols ! j)) = Inr embB
               \<and> length embA = 384 \<and> length embB = 384
               \<and> cosineSimilarity ext embA embB = Inr (cand_similarity c)
               \<and> threshold \<le> cand_similarity c)"
    unfolding pos pair_similarity_iff by blast
  have once: "distinct ?R" using d by (rule merge_candidates_distinct)
  have norev: "\<forall>c \<in> set ?R. \<forall>c' \<in> set ?R. \<not> (cand_a c' = cand_b c \<and> cand_b c' = cand_a c)"
  proof (intro ballI notI)
    fix c c' assume "c \<in> set ?R" "c' \<in> set ?R"
      and r: "cand_a c' = cand_b c \<and> cand_b c' = cand_a c"
    then obtain i j i' j' where ij: "i < j" "j < length sols" "cand_a c = sols ! i"
      "cand_b c = sols ! j" and ij': "i' < j'" "j' < length sols" "cand_a c' = sols ! i'"
      "cand_b c' = sols ! j'"
      unfolding pos by blast
    from r ij ij' have "sols ! i' = sols ! j" "sols ! j' = sols ! i" by simp_all
    with d ij ij' have "i' = j" "j' = i" by (simp_all add: nth_eq_iff_index_eq)
    with ij(1) ij'(1) show False by simp
  qed
  have ord: "sorted_wrt (\<lambda>c c'. cand_similarity c \<ge> cand_similarity c') ?R"
    by (rule merge_candidates_sorted)
  from exact once norev ord show ?thesis by (intro conjI)
qed

theorem merge_candidates_exact_witness:
  "\<lparr>cand_a = example_wide ''sol_00000001'' 5, cand_b = example_wide ''sol_00000002'' 5,
     cand_similarity = 1\<rparr> \<in> set (merge_candidates example_externals (4 / 5) example_solutions)
   \<and> \<lparr>cand_a = example_wide ''sol_00000002'' 5, cand_b = example_wide ''sol_00000001'' 5,
     cand_similarity = 1\<rparr> \<notin> set (merge_candidates example_externals (4 / 5) example_solutions)
   \<and> distinct (merge_candidates example_externals (4 / 5) example_solutions)"
proof -
  let ?c = "\<lparr>cand_a = example_wide ''sol_00000001'' 5, cand_b = example_wide ''sol_00000002'' 5,
     cand_similarity = 1\<rparr>"
  let ?c' = "\<lparr>cand_a = example_wide ''sol_00000002'' 5, cand_b = example_wide ''sol_00000001'' 5,
     cand_similarity = 1\<rparr>"
  have ids: "distinct (map col_id example_solutions)"
    by (simp add: example_solutions_def example_wide_def) (simp add: example_row_def)
  have dec: "bufferToEmbedding example_externals (col_problem_embedding (example_wide i 5))
               = Inr (replicate 384 5)" for i
    by (simp add: example_externals_def example_wide_def)
  have cos: "cosineSimilarity example_externals (replicate 384 5) (replicate 384 5) = Inr 1"
    by (simp add: example_externals_def)
  have "0 < (2::nat) \<and> 2 < length example_solutions
          \<and> cand_a ?c = example_solutions ! 0 \<and> cand_b ?c = example_solutions ! 2
          \<and> bufferToEmbedding example_externals (col_problem_embedding (example_solutions ! 0))
               = Inr (replicate 384 5)
          \<and> bufferToEmbedding example_externals (col_problem_embedding (example_solutions ! 2))
               = Inr (replicate 384 5)
          \<and> length (replicate 384 (5::real)) = 384 \<and> length (replicate 384 (5::real)) = 384
          \<and> cosineSimilarity example_externals (replicate 384 5) (replicate 384 5)
               = Inr (cand_similarity ?c)
          \<and> 4 / 5 \<le> cand_similarity ?c"
    by (simp add: example_solutions_def dec cos)
  then have ex: "\<exists>i j embA embB. i < j \<and> j < length example_solutions
               \<and> cand_a ?c = example_solutions ! i \<and> cand_b ?c = example_solutions ! j
               \<and> bufferToEmbedding example_externals (col_problem_embedding (example_solutions ! i)) = Inr embA
               \<and> bufferToEmbedding example_externals (col_problem_embedding (example_solutions ! j)) = Inr embB
               \<and> length embA = 384 \<and> length embB = 384
               \<and> cosineSimilarity example_externals embA embB = Inr (cand_similarity ?c)
               \<and> 4 / 5 \<le> cand_similarity ?c"
    by blast
  note t = merge_candidates_exact [OF ids, of example_externals "4 / 5"]
  from t ex have m: "?c \<in> set (merge_candidates example_externals (4 / 5) example_solutions)"
    by blast
  have r: "cand_a ?c' = cand_b ?c \<and> cand_b ?c' = cand_a ?c" by simp
  from t m r have n: "?c' \<notin> set (merge_candidates example_externals (4 / 5) example_solutions)"
    by blast
  from t have d: "distinct (merge_candidates example_externals (4 / 5) example_solutions)"
    by blast
  from m n d show ?thesis by (intro conjI)
qed

section \<open>Properties of the parser\<close>

lemma visit_returns:
  "has_returned (visit n sc s)"
  "has_returned (visit_children cs sc s)"
proof (induction n sc s and cs sc s rule: visit_visit_children.induct)
  case (1 k modifiers start en children parentScope s)
  show ?case
    by (cases "handle_node k modifiers start en parentScope s";
        cases "visit_children children (child_scope k parentScope) (state_of (handle_node k modifiers start en parentScope s))")
       (simp_all add: try_catch_def)
next
  case (2 scope_name s)
  show ?case by simp
next
  case (3 child rest scope_name s)
  then show ?case
    by (cases "visit child scope_name s") simp_all
qed

lemma shift_shift: "shift pre (shift mid out) = shift (pre @ mid) out"
  by (cases out) simp_all

lemma handleFunctionDeclaration_shift:
  "handleFunctionDeclaration name fl modifiers start en sc symbols
     = shift symbols (handleFunctionDeclaration name fl modifiers start en sc [])"
  unfolding handleFunctionDeclaration_def
  by (cases name) (simp_all add: call_def split: sum.splits)

lemma handleClassDeclaration_shift:
  "handleClassDeclaration name modifiers start en sc symbols
     = shift symbols (handleClassDeclaration name modifiers start en sc [])"
  unfolding handleClassDeclaration_def
  by (cases name) (simp_all add: call_def split: sum.splits)

lemma handleInterfaceDeclaration_shift:
  "handleInterfaceDeclaration text modifiers start en sc symbols
     = shift symbols (handleInterfaceDeclaration text modifiers start en sc [])"
  unfolding handleInterfaceDeclaration_def
  by (simp add: call_def split: sum.splits)

lemma handleTypeAliasDeclaration_shift:
  "handleTypeAliasDeclaration text tt modifiers start en sc symbols
     = shift symbols (handleTypeAliasDeclaration text tt modifiers start en sc [])"
  unfolding handleTypeAliasDeclaration_def
  by (simp add: call_def split: sum.splits)

lemma handleEnumDeclaration_shift:
  "handleEnumDeclaration text modifiers start en sc symbols
     = shift symbols (handleEnumDeclaration text modifiers start en sc [])"
  unfolding handleEnumDeclaration_def
  by (simp add: call_def split: sum.splits)

lemma declarations_loop_shift:
  "declarations_loop ex co sc ds symbols = shift symbols (declarations_loop ex co sc ds [])"
proof (induction ds arbitrary: symbols)
  case Nil
  show ?case by simp
next
  case (Cons d ds)
  show ?case
  proof (cases "vd_name d")
    case OtherName
    with Cons.IH [of symbols] show ?thesis by simp
  next
    case (Identifier nm)
    have step: "declarations_loop ex co sc ds (symbols @ [x])
                  = shift symbols (declarations_loop ex co sc ds ([] @ [x]))" for x
      using Cons.IH [of "symbols @ [x]"] Cons.IH [of "[x]"] by (simp add: shift_shift)
    show ?thesis
      using Identifier
      by (simp add: call_def step split: sum.splits prod.splits)
  qed
qed

lemma handleVariableStatement_shift:
  "handleVariableStatement co ds modifiers sc symbols
     = shift symbols (handleVariableStatement co ds modifiers sc [])"
  unfolding handleVariableStatement_def by (rule declarations_loop_shift)

lemma handleMethodDeclaration_shift:
  "handleMethodDeclaration name fl start en sc symbols
     = shift symbols (handleMethodDeclaration name fl start en sc [])"
  unfolding handleMethodDeclaration_def
  by (cases name) (simp_all add: call_def split: sum.splits)

lemma handlePropertyDeclaration_shift:
  "handlePropertyDeclaration name tt start sc symbols
     = shift symbols (handlePropertyDeclaration name tt start sc [])"
  unfolding handlePropertyDeclaration_def
  by (cases name) (simp_all add: call_def split: sum.splits option.splits)

lemma handleImportDeclaration_shift:
  "handleImportDeclaration ms ic start imps
     = shift imps (handleImportDeclaration ms ic start [])"
  unfolding handleImportDeclaration_def
  by (cases ms) (simp_all add: call_def Let_def split: sum.splits option.splits named_bindings.splits)

lemma on_symbols_shift:
  assumes "\<And>symbols. h symbols = shift symbols (h [])"
  shows "on_symbols h s = shift_state s (on_symbols h empty_state)"
proof -
  have "h (st_symbols s) = shift (st_symbols s) (h [])" by (rule assms)
  then show ?thesis
    by (cases "h []") (simp_all add: on_symbols_def empty_state_def extend_def)
qed

lemma on_imports_shift:
  assumes "\<And>imps. h imps = shift imps (h [])"
  shows "on_imports h s = shift_state s (on_imports h empty_state)"
proof -
  have "h (st_imports s) = shift (st_imports s) (h [])" by (rule assms)
  then show ?thesis
    by (cases "h []") (simp_all add: on_imports_def empty_state_def extend_def)
qed

lemma extend_empty: "extend s empty_state = s" "extend empty_state s = s"
  by (simp_all add: extend_def empty_state_def)

lemma extend_assoc: "extend (extend s t) u = extend s (extend t u)"
  by (simp add: extend_def)

lemma handle_node_shift:
  "handle_node k modifiers start en sc s
     = shift_state s (handle_node k modifiers start en sc empty_state)"
proof (cases k)
  case (FunctionDeclaration name fl)
  show ?thesis
    unfolding FunctionDeclaration handle_node_def node_kind.case
    by (rule on_symbols_shift [OF handleFunctionDeclaration_shift])
next
  case (ClassDeclaration name)
  show ?thesis
    unfolding ClassDeclaration handle_node_def node_kind.case
    by (rule on_symbols_shift [OF handleClassDeclaration_shift])
next
  case (InterfaceDeclaration nm)
  show ?thesis
    unfolding InterfaceDeclaration handle_node_def node_kind.case
    by (rule on_symbols_shift [OF handleInterfaceDeclaration_shift])
next
  case (TypeAliasDeclaration nm tt)
  show ?thesis
    unfolding TypeAliasDeclaration handle_node_def node_kind.case
    by (rule on_symbols_shift [OF handleTypeAliasDeclaration_shift])
next
  case (EnumDeclaration nm)
  show ?thesis
    unfolding EnumDeclaration handle_node_def node_kind.case
    by (rule on_symbols_shift [OF handleEnumDeclaration_shift])
next
  case (VariableStatement co ds)
  show ?thesis
    unfolding VariableStatement handle_node_def node_kind.case
    by (rule on_symbols_shift [OF handleVariableStatement_shift])
next
  case (MethodDeclaration name fl)
  show ?thesis
    unfolding MethodDeclaration handle_node_def node_kind.case
    by (rule on_symbols_shift [OF handleMethodDeclaration_shift])
next
  case (PropertyDeclaration name tt)
  show ?thesis
    unfolding PropertyDeclaration handle_node_def node_kind.case
    by (rule on_symbols_shift [OF handlePropertyDeclaration_shift])
next
  case (ImportDeclaration ms ic)
  show ?thesis
    unfolding ImportDeclaration handle_node_def node_kind.case
    by (rule on_imports_shift [OF handleImportDeclaration_shift])
qed (simp_all add: handle_node_def extend_empty)

lemma shift_state_twice: "shift_state s (shift_state t out) = shift_state (extend s t) out"
  by (cases out) (simp_all add: extend_assoc)

lemma shift_state_empty: "shift_state empty_state out = out"
  by (cases out) (simp_all add: extend_empty)

lemma try_catch_shift:
  "try_catch (shift_state s out) (\<lambda>err s'. Returned s')
     = shift_state s (try_catch out (\<lambda>err s'. Returned s'))"
  by (cases out) (simp_all add: try_catch_def)

lemma visit_children_shift_aux:
  assumes "\<And>c sc s. c \<in> set cs \<Longrightarrow> visit c sc s = shift_state s (visit c sc empty_state)"
  shows "visit_children cs sc s = shift_state s (visit_children cs sc empty_state)"
  using assms
proof (induction cs arbitrary: s)
  case Nil
  show ?case by (simp add: extend_empty)
next
  case (Cons c rest)
  have c: "visit c sc s = shift_state s (visit c sc empty_state)" for s
    by (rule Cons.prems) simp
  have rest: "visit_children rest sc s = shift_state s (visit_children rest sc empty_state)" for s
    by (rule Cons.IH, rule Cons.prems, simp)
  show ?case
  proof (cases "visit c sc empty_state")
    case (Returned t)
    have "visit_children (c # rest) sc s = visit_children rest sc (extend s t)"
      by (simp add: c [of s] Returned)
    also have "\<dots> = shift_state (extend s t) (visit_children rest sc empty_state)"
      by (rule rest)
    also have "\<dots> = shift_state s (shift_state t (visit_children rest sc empty_state))"
      by (simp add: shift_state_twice)
    also have "shift_state t (visit_children rest sc empty_state) = visit_children rest sc t"
      by (rule rest [symmetric])
    also have "visit_children rest sc t = visit_children (c # rest) sc empty_state"
      by (simp add: Returned)
    finally show ?thesis .
  next
    case (Raised e t)
    then show ?thesis by (simp add: c [of s])
  qed
qed

lemma visit_shift: "visit n sc s = shift_state s (visit n sc empty_state)"
proof (induction n arbitrary: sc s)
  case (Node k modifiers start en cs)
  have kids: "visit_children cs sc' s' = shift_state s' (visit_children cs sc' empty_state)"
    for sc' s'
    by (rule visit_children_shift_aux) (rule Node.IH)
  let ?H = "handle_node k modifiers start en sc empty_state"
  have h: "handle_node k modifiers start en sc s = shift_state s ?H"
    by (rule handle_node_shift)
  show ?case
  proof (cases ?H)
    case (Returned t)
    have "visit (Node k modifiers start en cs) sc s
            = try_catch (visit_children cs (child_scope k sc) (extend s t)) (\<lambda>err s'. Returned s')"
      by (simp add: h Returned)
    also have "\<dots> = try_catch (shift_state s (visit_children cs (child_scope k sc) t))
                         (\<lambda>err s'. Returned s')"
      by (simp add: kids [of _ "extend s t"] kids [of _ t] shift_state_twice)
    also have "\<dots> = shift_state s (try_catch (visit_children cs (child_scope k sc) t)
                         (\<lambda>err s'. Returned s'))"
      by (rule try_catch_shift)
    also have "try_catch (visit_children cs (child_scope k sc) t) (\<lambda>err s'. Returned s')
                 = visit (Node k modifiers start en cs) sc empty_state"
      by (simp add: Returned)
    finally show ?thesis .
  next
    case (Raised e t)
    then show ?thesis by (simp add: h try_catch_def)
  qed
qed

lemma visit_yield: "visit n sc s = Returned (extend s (yield n sc))"
proof -
  from visit_returns(1) [of n sc empty_state]
  obtain t where t: "visit n sc empty_state = Returned t"
    by (cases "visit n sc empty_state") simp_all
  then show ?thesis by (simp add: visit_shift [of n sc s] yield_def)
qed

lemma visit_children_yield:
  "visit_children cs sc s = Returned (foldl extend s (map (\<lambda>c. yield c sc) cs))"
  by (induction cs arbitrary: s) (simp_all add: visit_yield)

lemma symbols_foldl_extend:
  "st_symbols (foldl extend s ts) = st_symbols s @ concat (map st_symbols ts)"
  by (induction ts arbitrary: s) (simp_all add: extend_def)


lemma errors_foldl_extend:
  "st_errors (foldl extend s ts) = st_errors s @ concat (map st_errors ts)"
  by (induction ts arbitrary: s) (simp_all add: extend_def)

lemma yield_Node:
  "yield (Node k modifiers start en cs) sc =
     (case handle_node k modifiers start en sc empty_state of
        Raised e t \<Rightarrow> t
      | Returned t \<Rightarrow> foldl extend t (map (\<lambda>c. yield c (child_scope k sc)) cs))"
  by (simp add: yield_def visit_children_yield try_catch_def split: outcome.splits)

lemma example_yield:
  "yield example_tree None =
     \<lparr>st_symbols = pr_symbols example_result, st_imports = pr_imports example_result,
      st_errors = []\<rparr>"
  by (simp add: yield_def example_tree_def example_result_def empty_state_def try_catch_def
      handle_node_def on_symbols_def on_imports_def child_scope_def call_def getLocation_def
      handleImportDeclaration_def handleFunctionDeclaration_def handleClassDeclaration_def
      handlePropertyDeclaration_def handleMethodDeclaration_def getFunctionSignature_def
      parameter_text_def hasExportModifier_def hasDefaultModifier_def)

lemma state_of_shift: "state_of (shift pre out) = pre @ state_of out"
  by (cases out) simp_all

lemma declarations_loop_ok:
  "list_all symbol_ok symbols \<Longrightarrow>
     list_all symbol_ok (state_of (declarations_loop ex co sc ds symbols))"
proof (induction ds arbitrary: symbols co)
  case Nil
  then show ?case by simp
next
  case (Cons d ds)
  show ?case
  proof (cases "vd_name d")
    case OtherName
    with Cons show ?thesis by simp
  next
    case (Identifier nm)
    have push: "list_all symbol_ok (state_of (declarations_loop ex co' sc ds (symbols @ [x])))"
      if "symbol_ok x" for x co'
      using that Cons.prems by (intro Cons.IH) simp
    have ok: "symbol_ok \<lparr>sym_name = n, sym_kind = kind, sym_line = l, sym_column = c,
                 sym_endLine = el, sym_exported = e, sym_isDefault = dflt, sym_scope = scp,
                 sym_signature = sig\<rparr>"
      if "kind = KFunction \<or> kind = KConst \<or> kind = KVariable" for n kind l c el e dflt scp sig
      using that by (auto simp: symbol_ok_def)
    show ?thesis
      using Identifier
      by (auto simp: call_def Cons.prems split: sum.splits initializer.splits
          intro!: push ok)
  qed
qed

lemma handlers_ok:
  "list_all symbol_ok (state_of (handleFunctionDeclaration name fl modifiers start en sc []))"
  "list_all symbol_ok (state_of (handleClassDeclaration name modifiers start en sc []))"
  "list_all symbol_ok (state_of (handleInterfaceDeclaration nm modifiers start en sc []))"
  "list_all symbol_ok (state_of (handleTypeAliasDeclaration nm tt modifiers start en sc []))"
  "list_all symbol_ok (state_of (handleEnumDeclaration nm modifiers start en sc []))"
  "list_all symbol_ok (state_of (handleVariableStatement co ds modifiers sc []))"
  "list_all symbol_ok (state_of (handleMethodDeclaration pname fl start en sc []))"
  "list_all symbol_ok (state_of (handlePropertyDeclaration pname ptt start sc []))"
  by (simp_all add: handleFunctionDeclaration_def handleClassDeclaration_def
      handleInterfaceDeclaration_def handleTypeAliasDeclaration_def handleEnumDeclaration_def
      handleVariableStatement_def handleMethodDeclaration_def handlePropertyDeclaration_def
      declarations_loop_ok call_def symbol_ok_def
      split: option.splits sum.splits name_node.splits)

lemma on_symbols_state:
  "st_symbols (state_of (on_symbols h empty_state)) = state_of (h [])"
  "st_errors (state_of (on_symbols h empty_state)) = []"
  by (cases "h []"; simp add: on_symbols_def empty_state_def)+

lemma on_imports_state:
  "st_symbols (state_of (on_imports h empty_state)) = []"
  "st_errors (state_of (on_imports h empty_state)) = []"
  by (cases "h []"; simp add: on_imports_def empty_state_def)+

lemma empty_state_sel:
  "st_symbols empty_state = []" "st_imports empty_state = []" "st_errors empty_state = []"
  by (simp_all add: empty_state_def)

lemma handle_node_ok:
  "list_all symbol_ok (st_symbols (state_of (handle_node k modifiers start en sc empty_state)))"
  by (cases k) (simp_all add: handle_node_def on_symbols_state on_imports_state handlers_ok
      empty_state_sel)

lemma handle_node_errors:
  "st_errors (state_of (handle_node k modifiers start en sc empty_state)) = []"
  by (cases k) (simp_all add: handle_node_def on_symbols_state on_imports_state empty_state_sel)

lemma yield_ok: "list_all symbol_ok (st_symbols (yield n sc))"
proof (induction n arbitrary: sc)
  case (Node k modifiers start en cs)
  have kids: "list_all symbol_ok (concat (map st_symbols (map (\<lambda>c. yield c sc') cs)))" for sc'
    using Node.IH by (induction cs) simp_all
  show ?case
    using handle_node_ok [of k modifiers start en sc] kids [of "child_scope k sc"]
    by (cases "handle_node k modifiers start en sc empty_state")
       (simp_all add: yield_Node symbols_foldl_extend)
qed

lemma yield_errors: "st_errors (yield n sc) = []"
proof (induction n arbitrary: sc)
  case (Node k modifiers start en cs)
  have kids: "concat (map st_errors (map (\<lambda>c. yield c sc') cs)) = []" for sc'
    using Node.IH by (induction cs) simp_all
  show ?case
    using handle_node_errors [of k modifiers start en sc] kids [of "child_scope k sc"]
    by (cases "handle_node k modifiers start en sc empty_state")
       (simp_all add: yield_Node errors_foldl_extend)
qed

lemma parseFile_raised:
  assumes "createSourceFile filePath content (getScriptKind filePath) = Inl e"
  shows "parseFile createSourceFile filePath content =
           Inr \<lparr>pr_symbols = [], pr_imports = [],
                pr_errors = Some [''Parse error: '' @ message_of e]\<rparr>"
  by (simp add: parseFile_def Let_def assms call_def try_catch_def)

lemma parseFile_parsed:
  assumes "createSourceFile filePath content (getScriptKind filePath) = Inr sourceFile"
  shows "parseFile createSourceFile filePath content =
           Inr \<lparr>pr_symbols = st_symbols (yield sourceFile None),
                pr_imports = st_imports (yield sourceFile None), pr_errors = None\<rparr>"
proof -
  have "visit sourceFile None empty_state = Returned (yield sourceFile None)"
    by (simp add: visit_yield extend_empty)
  then have "visit sourceFile None \<lparr>st_symbols = [], st_imports = [], st_errors = []\<rparr>
          = Returned (yield sourceFile None)"
    by (simp add: empty_state_def)
  then show ?thesis
    by (simp add: parseFile_def Let_def assms call_def try_catch_def yield_errors)
qed

lemma example_parse:
  "parseFile example_compiler ''store.ts'' ''import Bar from bar'' = Inr example_result"
proof -
  have "example_compiler ''store.ts'' ''import Bar from bar'' (getScriptKind ''store.ts'')
          = Inr example_tree"
    by (simp add: example_compiler_def)
  from parseFile_parsed [of example_compiler "''store.ts''" "''import Bar from bar''" example_tree, OF this]
  show ?thesis
    by (simp add: example_yield example_result_def)
qed











































text \<open>
  Claim C10. Every symbol that \<open>parseFile\<close> returns with kind method or property has
  \<open>exported = false\<close> and \<open>isDefault = false\<close>, whatever the modifiers of the enclosing
  class.
\<close>

theorem members_never_exported:
  assumes "parseFile createSourceFile filePath content = Inr r"
  shows "\<forall>x \<in> set (pr_symbols r).
           sym_kind x = KMethod \<or> sym_kind x = KProperty \<longrightarrow>
             \<not> sym_exported x \<and> \<not> sym_isDefault x"
proof -
  have "list_all symbol_ok (pr_symbols r)"
  proof (cases "createSourceFile filePath content (getScriptKind filePath)")
    case (Inl e)
    from parseFile_raised [of createSourceFile filePath content e, OF this] assms
    show ?thesis by simp
  next
    case (Inr sourceFile)
    from parseFile_parsed [of createSourceFile filePath content sourceFile, OF this] assms have "pr_symbols r = st_symbols (yield sourceFile None)"
      by auto
    then show ?thesis by (simp add: yield_ok)
  qed
  then show ?thesis
    by (auto simp: list_all_iff symbol_ok_def)
qed

theorem members_never_exported_witness:
  "parseFile example_compiler ''store.ts'' ''import Bar from bar'' = Inr example_result
   \<and> sym_kind (pr_symbols example_result ! 0) = KClass
   \<and> sym_exported (pr_symbols example_result ! 0)
   \<and> sym_kind (pr_symbols example_result ! 1) = KProperty
   \<and> \<not> sym_exported (pr_symbols example_result ! 1)
   \<and> \<not> sym_isDefault (pr_symbols example_result ! 1)
   \<and> sym_kind (pr_symbols example_result ! 2) = KMethod
   \<and> sym_scope (pr_symbols example_result ! 2) = Some ''Store''
   \<and> \<not> sym_exported (pr_symbols example_result ! 2)
   \<and> \<not> sym_isDefault (pr_symbols example_result ! 2)"
proof -
  have k: "sym_kind (pr_symbols example_result ! 0) = KClass"
    "sym_exported (pr_symbols example_result ! 0)"
    "sym_kind (pr_symbols example_result ! 1) = KProperty"
    "sym_kind (pr_symbols example_result ! 2) = KMethod"
    "sym_scope (pr_symbols example_result ! 2) = Some ''Store''"
    by (simp_all add: example_result_def)
  have m: "pr_symbols example_result ! 1 \<in> set (pr_symbols example_result)"
    "pr_symbols example_result ! 2 \<in> set (pr_symbols example_result)"
    by (simp_all add: example_result_def)
  from members_never_exported [OF example_parse] m k(3,4)
  have "\<not> sym_exported (pr_symbols example_result ! 1)"
    "\<not> sym_isDefault (pr_symbols example_result ! 1)"
    "\<not> sym_exported (pr_symbols example_result ! 2)"
    "\<not> sym_isDefault (pr_symbols example_result ! 2)"
    by blast+
  with example_parse k show ?thesis by (intro conjI)
qed

end
